theory Spec2Isabelle
  imports Main "HOL-Library.Word"
begin

unbundle bit_operations_syntax

section \<open>Errors\<close>

text \<open>
  Go errors are values. The two source files build them in four ways:
  \<^verbatim>\<open>fmt.Errorf(format, args...)\<close>, \<^verbatim>\<open>errors.New(msg)\<close>, the wrapper
  \<^verbatim>\<open>ErrParamInvalid{err}\<close> (also through \<^verbatim>\<open>rc.NewErrParamInvalid\<close>) and the
  not-found error that the \<^verbatim>\<open>rc.Params\<close> accessors return for a missing key.
  A formatted error is kept as its format string with its arguments, so that which
  values a message names stays visible without modelling the quoting of \<^verbatim>\<open>%q\<close>.
  \<open>ErrExternal\<close> stands for any error that a collaborator outside the two files
  reports (backend resolution, the engine, \<^verbatim>\<open>CheckSync.Set\<close>).
\<close>

datatype error =
    Errorf string "string list"
  | ErrorsNew string
  | ErrParamInvalid error
  | ErrParamNotFound string
  | ErrExternal string

section \<open>vfs/vfscommon/options.go\<close>

subsection \<open>TempFileHandlingMode\<close>

text \<open>
  \<^verbatim>\<open>type TempFileHandlingMode int\<close> with the constants numbered by \<^verbatim>\<open>iota\<close>.
  Any integer is a value of the type, so the model is \<open>int\<close> and the three named
  modes are 0, 1 and 2.
\<close>

type_synonym TempFileHandlingMode = int

definition TempFileNormal :: TempFileHandlingMode where
  "TempFileNormal = 0"

definition TempFileSafe :: TempFileHandlingMode where
  "TempFileSafe = 1"

definition TempFileAggressive :: TempFileHandlingMode where
  "TempFileAggressive = 2"

text \<open>\<^verbatim>\<open>func (m TempFileHandlingMode) String() string\<close>: a switch with a default.\<close>

definition TempFileHandlingMode_String :: "TempFileHandlingMode \<Rightarrow> string" where
  "TempFileHandlingMode_String m =
     (if m = TempFileNormal then ''normal''
      else if m = TempFileSafe then ''safe''
      else if m = TempFileAggressive then ''aggressive''
      else ''unknown'')"

text \<open>
  \<^verbatim>\<open>strings.ToLower\<close> of the Go standard library. A string whose bytes are all below
  128 (\<^verbatim>\<open>utf8.RuneSelf\<close>) is lowered byte by byte, the letters A to Z going to a to
  z. A string with a byte from 128 on is lowered rune by rune with the Unicode tables
  (\<^verbatim>\<open>Map(unicode.ToLower, s)\<close>), which can turn a rune outside ASCII into an ASCII
  letter; that mapping is the parameter \<open>mapLower\<close>, so that what is proved holds for
  the library's tables whatever they are.
\<close>

definition toLower_char :: "char \<Rightarrow> char" where
  "toLower_char c =
     (let n = (of_char c :: nat) in if 65 \<le> n \<and> n \<le> 90 then char_of (n + 32) else c)"

definition isASCII :: "string \<Rightarrow> bool" where
  "isASCII s = list_all (\<lambda>c. (of_char c :: nat) < 128) s"

definition ToLower :: "(string \<Rightarrow> string) \<Rightarrow> string \<Rightarrow> string" where
  "ToLower mapLower s = (if isASCII s then map toLower_char s else mapLower s)"

text \<open>
  \<^verbatim>\<open>func (m *TempFileHandlingMode) Set(s string) error\<close>: the receiver is
  written only in the three named cases; the default case returns the error and leaves
  it alone. The model returns the receiver's new value with the error.
\<close>

definition TempFileHandlingMode_Set ::
  "(string \<Rightarrow> string) \<Rightarrow> TempFileHandlingMode \<Rightarrow> string
     \<Rightarrow> TempFileHandlingMode \<times> error option" where
  "TempFileHandlingMode_Set mapLower m s =
     (let l = ToLower mapLower s in
      if l = ''normal'' then (TempFileNormal, None)
      else if l = ''safe'' then (TempFileSafe, None)
      else if l = ''aggressive'' then (TempFileAggressive, None)
      else (m, Some (Errorf ''unknown temp file handling mode %q'' [s])))"

text \<open>
  A rune mapping to run the model on: it lowers the capital I with a dot above
  (U+0130, the bytes C4 B0) in one word as the Unicode tables do, and leaves every
  other string as it is.
\<close>

definition demo_mapLower :: "string \<Rightarrow> string" where
  "demo_mapLower s =
     (if s = ''aggress'' @ [CHR 0xC4, CHR 0xB0] @ ''ve'' then ''aggressive'' else s)"

subsection \<open>Types and constants declared outside the file\<close>

text \<open>
  Modelled from the spec: the types \<^verbatim>\<open>fs.Duration\<close> and \<^verbatim>\<open>fs.SizeSuffix\<close> and the
  constant \<^verbatim>\<open>fs.Mebi\<close> of package \<^verbatim>\<open>fs\<close>, which is outside the source files at
  hand. A duration is a count of nanoseconds and a size a count of bytes, both 64-bit
  signed; every value below is a constant expression that the compiler evaluates
  exactly and that fits, so they are modelled as \<open>int\<close>. \<^verbatim>\<open>fs.Mebi\<close> is the binary
  prefix Mi, \<open>2 ^ 20\<close>. The constants of package \<^verbatim>\<open>time\<close> are those of the Go
  standard library.
\<close>

type_synonym Duration = int
type_synonym SizeSuffix = int

definition Millisecond :: Duration where
  "Millisecond = 1000000"

definition Second :: Duration where
  "Second = 1000 * Millisecond"

definition Minute :: Duration where
  "Minute = 60 * Second"

definition Mebi :: SizeSuffix where
  "Mebi = 2 ^ 20"

text \<open>
  Modelled from the spec: the type \<^verbatim>\<open>FileMode\<close> of package vfscommon, declared in
  another file. It wraps \<^verbatim>\<open>os.FileMode\<close>, an unsigned 32-bit set of bits: the nine
  permission bits \<^verbatim>\<open>os.ModePerm = 0777\<close>, and type bits at the top, of which
  \<^verbatim>\<open>os.ModeDir = 1 << 31\<close> and \<^verbatim>\<open>os.ModeSymlink = 1 << 27\<close>.
\<close>

type_synonym FileMode = "32 word"

definition ModeDir :: FileMode where
  "ModeDir = push_bit 31 1"

definition ModeSymlink :: FileMode where
  "ModeSymlink = push_bit 27 1"

definition ModePerm :: FileMode where
  "ModePerm = 511"

text \<open>
  Modelled from the spec: the type \<^verbatim>\<open>CacheMode\<close> of package vfscommon, declared in
  another file. This file uses \<^verbatim>\<open>CacheModeOff\<close> only; the other three are the modes
  its help text lists (off, minimal, writes, full).
\<close>

datatype CacheMode = CacheModeOff | CacheModeMinimal | CacheModeWrites | CacheModeFull

text \<open>
  Modelled from the spec: \<^verbatim>\<open>fs.ConfigInfo\<close> of package \<^verbatim>\<open>fs\<close>, the configuration
  that a context carries ("a request-scoped configuration object"), with the two flags
  that the source files read or write.
\<close>

record ConfigInfo =
  ci_DryRun :: bool
  ci_Links :: bool

text \<open>
  What the defaults read from the platform: \<^verbatim>\<open>runtime.GOOS\<close> and the results of
  \<^verbatim>\<open>getUmask()\<close>, \<^verbatim>\<open>getUID()\<close> and \<^verbatim>\<open>getGID()\<close>, taken as parameters.
\<close>

record Platform =
  GOOS :: string
  getUmask :: int
  getUID :: "32 word"
  getGID :: "32 word"

subsection \<open>Options, OptionsInfo, DefaultOpt and Opt\<close>

text \<open>
  The \<^verbatim>\<open>Default\<close> of an \<^verbatim>\<open>fs.Option\<close> is an \<^verbatim>\<open>interface{}\<close>: a value together
  with its Go type. \<open>optval\<close> has one constructor for each type that occurs.
\<close>

datatype optval =
    BoolV bool
  | DurationV Duration
  | SizeSuffixV SizeSuffix
  | IntV int
  | FileModeV FileMode
  | CacheModeV CacheMode
  | Uint32V "32 word"

text \<open>One entry of the table; the help text is documentation and is left out.\<close>

record fs_Option =
  Name :: string
  Default :: optval
  Groups :: string

definition OptionsInfo :: "Platform \<Rightarrow> fs_Option list" where
  "OptionsInfo pf =
    [\<lparr>Name = ''no_modtime'', Default = BoolV False, Groups = ''VFS''\<rparr>,
     \<lparr>Name = ''no_checksum'', Default = BoolV False, Groups = ''VFS''\<rparr>,
     \<lparr>Name = ''no_seek'', Default = BoolV False, Groups = ''VFS''\<rparr>,
     \<lparr>Name = ''dir_cache_time'', Default = DurationV (5 * 60 * Second), Groups = ''VFS''\<rparr>,
     \<lparr>Name = ''vfs_refresh'', Default = BoolV False, Groups = ''VFS''\<rparr>,
     \<lparr>Name = ''poll_interval'', Default = DurationV Minute, Groups = ''VFS''\<rparr>,
     \<lparr>Name = ''read_only'', Default = BoolV False, Groups = ''VFS''\<rparr>,
     \<lparr>Name = ''vfs_links'', Default = BoolV False, Groups = ''VFS''\<rparr>,
     \<lparr>Name = ''vfs_cache_mode'', Default = CacheModeV CacheModeOff, Groups = ''VFS''\<rparr>,
     \<lparr>Name = ''vfs_cache_poll_interval'', Default = DurationV (60 * Second), Groups = ''VFS''\<rparr>,
     \<lparr>Name = ''vfs_cache_max_age'', Default = DurationV (3600 * Second), Groups = ''VFS''\<rparr>,
     \<lparr>Name = ''vfs_cache_max_size'', Default = SizeSuffixV (- 1), Groups = ''VFS''\<rparr>,
     \<lparr>Name = ''vfs_cache_min_free_space'', Default = SizeSuffixV (- 1), Groups = ''VFS''\<rparr>,
     \<lparr>Name = ''vfs_read_chunk_size'', Default = SizeSuffixV (128 * Mebi), Groups = ''VFS''\<rparr>,
     \<lparr>Name = ''vfs_read_chunk_size_limit'', Default = SizeSuffixV (- 1), Groups = ''VFS''\<rparr>,
     \<lparr>Name = ''vfs_read_chunk_streams'', Default = IntV 0, Groups = ''VFS''\<rparr>,
     \<lparr>Name = ''dir_perms'', Default = FileModeV 511, Groups = ''VFS''\<rparr>,
     \<lparr>Name = ''file_perms'', Default = FileModeV 438, Groups = ''VFS''\<rparr>,
     \<lparr>Name = ''link_perms'', Default = FileModeV 438, Groups = ''VFS''\<rparr>,
     \<lparr>Name = ''vfs_case_insensitive'',
      Default = BoolV (GOOS pf = ''windows'' \<or> GOOS pf = ''darwin''), Groups = ''VFS''\<rparr>,
     \<lparr>Name = ''vfs_block_norm_dupes'', Default = BoolV False, Groups = ''VFS''\<rparr>,
     \<lparr>Name = ''vfs_write_wait'', Default = DurationV (1000 * Millisecond), Groups = ''VFS''\<rparr>,
     \<lparr>Name = ''vfs_read_wait'', Default = DurationV (20 * Millisecond), Groups = ''VFS''\<rparr>,
     \<lparr>Name = ''vfs_write_back'', Default = DurationV (5 * Second), Groups = ''VFS''\<rparr>,
     \<lparr>Name = ''vfs_read_ahead'', Default = SizeSuffixV (0 * Mebi), Groups = ''VFS''\<rparr>,
     \<lparr>Name = ''vfs_used_is_size'', Default = BoolV False, Groups = ''VFS''\<rparr>,
     \<lparr>Name = ''vfs_fast_fingerprint'', Default = BoolV False, Groups = ''VFS''\<rparr>,
     \<lparr>Name = ''vfs_disk_space_total_size'', Default = SizeSuffixV (- 1), Groups = ''VFS''\<rparr>,
     \<lparr>Name = ''umask'', Default = FileModeV (word_of_int (getUmask pf)), Groups = ''VFS''\<rparr>,
     \<lparr>Name = ''uid'', Default = Uint32V (getUID pf), Groups = ''VFS''\<rparr>,
     \<lparr>Name = ''gid'', Default = Uint32V (getGID pf), Groups = ''VFS''\<rparr>]"

text \<open>\<^verbatim>\<open>type Options struct\<close> of package vfscommon, field by field.\<close>

record vfs_Options =
  NoSeek :: bool
  NoChecksum :: bool
  ReadOnly :: bool
  Links :: bool
  NoModTime :: bool
  DirCacheTime :: Duration
  Refresh :: bool
  PollInterval :: Duration
  Umask :: FileMode
  UID :: "32 word"
  GID :: "32 word"
  DirPerms :: FileMode
  FilePerms :: FileMode
  LinkPerms :: FileMode
  ChunkSize :: SizeSuffix
  ChunkSizeLimit :: SizeSuffix
  ChunkStreams :: int
  CacheMode :: CacheMode
  CacheMaxAge :: Duration
  CacheMaxSize :: SizeSuffix
  CacheMinFreeSpace :: SizeSuffix
  CachePollInterval :: Duration
  CaseInsensitive :: bool
  BlockNormDupes :: bool
  WriteWait :: Duration
  ReadWait :: Duration
  WriteBack :: Duration
  ReadAhead :: SizeSuffix
  UsedIsSize :: bool
  FastFingerprint :: bool
  DiskSpaceTotalSize :: SizeSuffix
  TempFileHandling :: TempFileHandlingMode
  TempFileTimeout :: Duration

text \<open>
  The struct tags \<^verbatim>\<open>config:"..."\<close>: the option name of each field, with the field's
  value at its Go type, in the order of the struct. The last two fields carry a
  \<^verbatim>\<open>json\<close> tag only and have no option name.
\<close>

definition config_fields :: "vfs_Options \<Rightarrow> (string \<times> optval) list" where
  "config_fields opt =
    [(''no_seek'', BoolV (NoSeek opt)),
     (''no_checksum'', BoolV (NoChecksum opt)),
     (''read_only'', BoolV (ReadOnly opt)),
     (''vfs_links'', BoolV (Links opt)),
     (''no_modtime'', BoolV (NoModTime opt)),
     (''dir_cache_time'', DurationV (DirCacheTime opt)),
     (''vfs_refresh'', BoolV (Refresh opt)),
     (''poll_interval'', DurationV (PollInterval opt)),
     (''umask'', FileModeV (Umask opt)),
     (''uid'', Uint32V (UID opt)),
     (''gid'', Uint32V (GID opt)),
     (''dir_perms'', FileModeV (DirPerms opt)),
     (''file_perms'', FileModeV (FilePerms opt)),
     (''link_perms'', FileModeV (LinkPerms opt)),
     (''vfs_read_chunk_size'', SizeSuffixV (ChunkSize opt)),
     (''vfs_read_chunk_size_limit'', SizeSuffixV (ChunkSizeLimit opt)),
     (''vfs_read_chunk_streams'', IntV (ChunkStreams opt)),
     (''vfs_cache_mode'', CacheModeV (CacheMode opt)),
     (''vfs_cache_max_age'', DurationV (CacheMaxAge opt)),
     (''vfs_cache_max_size'', SizeSuffixV (CacheMaxSize opt)),
     (''vfs_cache_min_free_space'', SizeSuffixV (CacheMinFreeSpace opt)),
     (''vfs_cache_poll_interval'', DurationV (CachePollInterval opt)),
     (''vfs_case_insensitive'', BoolV (CaseInsensitive opt)),
     (''vfs_block_norm_dupes'', BoolV (BlockNormDupes opt)),
     (''vfs_write_wait'', DurationV (WriteWait opt)),
     (''vfs_read_wait'', DurationV (ReadWait opt)),
     (''vfs_write_back'', DurationV (WriteBack opt)),
     (''vfs_read_ahead'', SizeSuffixV (ReadAhead opt)),
     (''vfs_used_is_size'', BoolV (UsedIsSize opt)),
     (''vfs_fast_fingerprint'', BoolV (FastFingerprint opt)),
     (''vfs_disk_space_total_size'', SizeSuffixV (DiskSpaceTotalSize opt))]"

text \<open>The value of the field that carries a given option name.\<close>

definition config_field :: "vfs_Options \<Rightarrow> string \<Rightarrow> optval option" where
  "config_field opt name = map_of (config_fields opt) name"

definition DefaultOpt :: "Platform \<Rightarrow> vfs_Options" where
  "DefaultOpt pf =
    \<lparr>NoSeek = False,
     NoChecksum = False,
     ReadOnly = False,
     Links = False,
     NoModTime = False,
     DirCacheTime = 5 * 60 * Second,
     Refresh = False,
     PollInterval = Minute,
     Umask = word_of_int (getUmask pf),
     UID = getUID pf,
     GID = getGID pf,
     DirPerms = 511,
     FilePerms = 438,
     LinkPerms = 438,
     ChunkSize = 128 * Mebi,
     ChunkSizeLimit = - 1,
     ChunkStreams = 0,
     CacheMode = CacheModeOff,
     CacheMaxAge = 3600 * Second,
     CacheMaxSize = - 1,
     CacheMinFreeSpace = - 1,
     CachePollInterval = 60 * Second,
     CaseInsensitive = (GOOS pf = ''windows'' \<or> GOOS pf = ''darwin''),
     BlockNormDupes = False,
     WriteWait = 1000 * Millisecond,
     ReadWait = 20 * Millisecond,
     WriteBack = 5 * Second,
     ReadAhead = 0 * Mebi,
     UsedIsSize = False,
     FastFingerprint = False,
     DiskSpaceTotalSize = - 1,
     TempFileHandling = TempFileSafe,
     TempFileTimeout = 5 * Minute\<rparr>"

text \<open>\<^verbatim>\<open>var Opt = DefaultOpt\<close>: the value of the package-level variable at its initialisation.\<close>

definition Opt :: "Platform \<Rightarrow> vfs_Options" where
  "Opt pf = DefaultOpt pf"

subsection \<open>Options.Init\<close>

text \<open>
  \<^verbatim>\<open>func (opt *Options) Init()\<close> reads the global configuration and rewrites the
  receiver; the model takes both and returns the receiver's new value. The statements
  run in the order of the source: the override of \<open>Links\<close>, the three masks with the
  complement of \<open>Umask\<close>, then the two type bits.
\<close>

definition Init :: "ConfigInfo \<Rightarrow> vfs_Options \<Rightarrow> vfs_Options" where
  "Init ci opt0 =
    (let opt = (if ci_Links ci then opt0\<lparr>Links := True\<rparr> else opt0);
         opt = opt\<lparr>DirPerms := DirPerms opt AND NOT (Umask opt)\<rparr>;
         opt = opt\<lparr>FilePerms := FilePerms opt AND NOT (Umask opt)\<rparr>;
         opt = opt\<lparr>LinkPerms := LinkPerms opt AND NOT (Umask opt)\<rparr>;
         opt = opt\<lparr>DirPerms := DirPerms opt OR ModeDir\<rparr>;
         opt = opt\<lparr>LinkPerms := LinkPerms opt OR ModeSymlink\<rparr>
     in opt)"

section \<open>cmd/bisync/rc.go\<close>

subsection \<open>rc.Params\<close>

text \<open>
  \<^verbatim>\<open>rc.Params\<close> is a map from parameter names to loosely typed values. The values
  that the claims speak of are booleans, 64-bit integers and strings; \<open>VOther\<close> stands
  for a value of any other kind (a floating-point number, a list, nil), given by its
  printed form.
\<close>

datatype pvalue = VBool bool | VInt "64 word" | VString string | VOther string

type_synonym Params = "string \<Rightarrow> pvalue option"

text \<open>
  Modelled from the spec: the accessors \<^verbatim>\<open>GetBool\<close>, \<^verbatim>\<open>GetInt64\<close> and
  \<^verbatim>\<open>GetString\<close> of \<^verbatim>\<open>rc.Params\<close> and the test \<^verbatim>\<open>rc.NotErrParamNotFound\<close>,
  which live in package \<^verbatim>\<open>fs/rc\<close>, outside the source files at hand. Following the
  spec ("dynamic option parsing from a loosely-typed parameter map", "missing/invalid
  key surfaced as a ConfigError") and the way \<^verbatim>\<open>rcBisync\<close> uses them: a key is looked
  up exactly as written; a missing key gives the zero value with a not-found error; a
  value of the requested type gives that value with no error. What \<^verbatim>\<open>GetBool\<close> and
  \<^verbatim>\<open>GetInt64\<close> make of a value of another kind (a string that parses, a number of
  another type) is not fixed here: the two conversions are parameters, which are
  given the key and the value and yield either a value of the requested type or an
  error. Where the conversion yields a value the accessor returns it with no error;
  where it yields an error the accessor returns the zero value with that error as an
  invalid-parameter error. \<^verbatim>\<open>GetString\<close> takes strings only. Each accessor returns the pair (value, error) as
  the Go function does.
\<close>

record Conversions =
  ConvBool :: "string \<Rightarrow> pvalue \<Rightarrow> error + bool"
  ConvInt64 :: "string \<Rightarrow> pvalue \<Rightarrow> error + 64 word"

definition GetBool :: "Conversions \<Rightarrow> Params \<Rightarrow> string \<Rightarrow> bool \<times> error option" where
  "GetBool cv p key =
     (case p key of
        None \<Rightarrow> (False, Some (ErrParamNotFound key))
      | Some (VBool b) \<Rightarrow> (b, None)
      | Some v \<Rightarrow>
          (case ConvBool cv key v of
             Inr b \<Rightarrow> (b, None)
           | Inl e \<Rightarrow> (False, Some (ErrParamInvalid e))))"

definition GetInt64 :: "Conversions \<Rightarrow> Params \<Rightarrow> string \<Rightarrow> 64 word \<times> error option" where
  "GetInt64 cv p key =
     (case p key of
        None \<Rightarrow> (0, Some (ErrParamNotFound key))
      | Some (VInt n) \<Rightarrow> (n, None)
      | Some v \<Rightarrow>
          (case ConvInt64 cv key v of
             Inr n \<Rightarrow> (n, None)
           | Inl e \<Rightarrow> (0, Some (ErrParamInvalid e))))"

definition GetString :: "Params \<Rightarrow> string \<Rightarrow> string \<times> error option" where
  "GetString p key =
     (case p key of
        None \<Rightarrow> ([], Some (ErrParamNotFound key))
      | Some (VString s) \<Rightarrow> (s, None)
      | Some _ \<Rightarrow> ([], Some (ErrParamInvalid (Errorf ''expecting string value for key %q'' [key]))))"

text \<open>True when there is an error and it is not the not-found error.\<close>

definition NotErrParamNotFound :: "error option \<Rightarrow> bool" where
  "NotErrParamNotFound err =
     (case err of
        None \<Rightarrow> False
      | Some (ErrParamNotFound key) \<Rightarrow> False
      | Some _ \<Rightarrow> True)"

text \<open>\<^verbatim>\<open>rc.NewErrParamInvalid\<close> wraps an error as an invalid-parameter error.\<close>

definition NewErrParamInvalid :: "error \<Rightarrow> error" where
  "NewErrParamInvalid e = ErrParamInvalid e"

subsection \<open>Prefer and GetPrefer\<close>

text \<open>
  Modelled from the spec: the type \<^verbatim>\<open>Prefer\<close>, declared in package bisync outside the
  source files at hand. \<^verbatim>\<open>GetPrefer\<close> names seven constants of it; following the
  spec's list of policies (none, path1, path2, newer, older, larger, smaller) they are
  seven different values, here the constructors of a datatype.
\<close>

datatype Prefer =
    PreferNone
  | PreferPath1
  | PreferPath2
  | PreferNewer
  | PreferOlder
  | PreferLarger
  | PreferSmaller

text \<open>
  \<^verbatim>\<open>func GetPrefer(key string, p rc.Params) (Prefer, error)\<close>: the error of
  \<^verbatim>\<open>GetString\<close> is passed on with \<open>PreferNone\<close>; then the switch on the string.
\<close>

definition GetPrefer :: "string \<Rightarrow> Params \<Rightarrow> Prefer \<times> error option" where
  "GetPrefer key p =
     (case GetString p key of (str, err) \<Rightarrow>
      if err \<noteq> None then (PreferNone, err)
      else if str = ''none'' then (PreferNone, None)
      else if str = ''path1'' then (PreferPath1, None)
      else if str = ''path2'' then (PreferPath2, None)
      else if str = ''newer'' then (PreferNewer, None)
      else if str = ''older'' then (PreferOlder, None)
      else if str = ''larger'' then (PreferLarger, None)
      else if str = ''smaller'' then (PreferSmaller, None)
      else (PreferNone,
            Some (ErrParamInvalid (Errorf ''invalid prefer value %q for key %q'' [str, key]))))"

subsection \<open>The option bundle and the collaborators of rcBisync\<close>

text \<open>
  Modelled from the spec: the \<^verbatim>\<open>Options\<close> struct of package bisync (the "typed option
  bundle"), declared outside the source files at hand. It has the fields that
  \<^verbatim>\<open>rcBisync\<close> writes; the field types are those of the values assigned to them. \<open>MaxDelete\<close> is a Go \<^verbatim>\<open>int\<close>: the only values stored in
  it are 0 and the conversions of 64-bit values between 0 and 100, which no width of
  \<^verbatim>\<open>int\<close> changes, so it is modelled as \<open>int\<close>. The type of \<open>CheckSync\<close> is a
  parameter \<open>'cs\<close>: the source only calls its \<^verbatim>\<open>Set\<close> method.
\<close>

record 'cs bisync_Options =
  DryRun :: bool
  MaxDelete :: int
  Resync :: bool
  ResyncMode :: Prefer
  CheckAccess :: bool
  Force :: bool
  CreateEmptySrcDirs :: bool
  RemoveEmptyDirs :: bool
  NoCleanup :: bool
  IgnoreListingChecksum :: bool
  Resilient :: bool
  Recover :: bool
  CheckFilename :: string
  FiltersFile :: string
  Workdir :: string
  BackupDir1 :: string
  BackupDir2 :: string
  ConflictResolve :: Prefer
  ConflictSuffixFlag :: string
  CheckSync :: 'cs

text \<open>
  What \<^verbatim>\<open>rcBisync\<close> calls outside the file, as parameters: the conversions of the
  accessors; the zero value of the
  type of \<open>CheckSync\<close> and its method \<^verbatim>\<open>Set\<close> (which returns the receiver's new
  value with the error); \<^verbatim>\<open>rc.GetFsNamed\<close>, which resolves a named parameter to a
  backend handle of type \<open>'fs\<close> or fails; and the engine \<^verbatim>\<open>Bisync\<close>, which returns
  the diagnostic text that \<^verbatim>\<open>bilib.CaptureOutput\<close> captures while it runs together
  with its error.
\<close>

record ('fs, 'cs) Env =
  Conv :: Conversions
  CheckSync_zero :: 'cs
  CheckSync_Set :: "'cs \<Rightarrow> string \<Rightarrow> 'cs \<times> error option"
  GetFsNamed :: "ConfigInfo \<Rightarrow> Params \<Rightarrow> string \<Rightarrow> error + 'fs"
  Bisync :: "ConfigInfo \<Rightarrow> 'fs \<Rightarrow> 'fs \<Rightarrow> 'cs bisync_Options \<Rightarrow> string \<times> error option"

text \<open>
  The calls that leave the function, in the order they are made: the resolution of a
  named location, the run of the engine with its arguments, and the write of the
  captured text to the log.
\<close>

datatype ('fs, 'cs) event =
    GetFsNamed_call string
  | Bisync_call ConfigInfo 'fs 'fs "'cs bisync_Options"
  | Log_write string

text \<open>
  The state at a return of \<^verbatim>\<open>rcBisync\<close>: the two results \<^verbatim>\<open>out\<close> (\<open>None\<close> is
  \<^verbatim>\<open>nil\<close>) and \<^verbatim>\<open>err\<close>, the values that the locals \<^verbatim>\<open>ci\<close> and \<^verbatim>\<open>*opt\<close>
  hold at that point, and the calls made so far.
\<close>

record ('fs, 'cs) Returned =
  ret_out :: "Params option"
  ret_err :: "error option"
  ret_ci :: ConfigInfo
  ret_opt :: "'cs bisync_Options"
  ret_events :: "('fs, 'cs) event list"

definition Returned ::
  "Params option \<Rightarrow> error option \<Rightarrow> ConfigInfo \<Rightarrow> 'cs bisync_Options
     \<Rightarrow> ('fs, 'cs) event list \<Rightarrow> ('fs, 'cs) Returned" where
  "Returned out err ci opt evs =
     \<lparr>ret_out = out, ret_err = err, ret_ci = ci, ret_opt = opt, ret_events = evs\<rparr>"

text \<open>\<^verbatim>\<open>&Options{}\<close>: every field at its zero value.\<close>

definition Options_zero :: "('fs, 'cs) Env \<Rightarrow> 'cs bisync_Options" where
  "Options_zero env =
     \<lparr>DryRun = False, MaxDelete = 0, Resync = False, ResyncMode = PreferNone,
      CheckAccess = False, Force = False, CreateEmptySrcDirs = False,
      RemoveEmptyDirs = False, NoCleanup = False, IgnoreListingChecksum = False,
      Resilient = False, Recover = False, CheckFilename = [], FiltersFile = [],
      Workdir = [], BackupDir1 = [], BackupDir2 = [], ConflictResolve = PreferNone,
      ConflictSuffixFlag = [], CheckSync = CheckSync_zero env\<rparr>"

subsection \<open>rcBisync\<close>

text \<open>
  \<^verbatim>\<open>func rcBisync(ctx context.Context, in rc.Params) (out rc.Params, err error)\<close>,
  statement by statement. \<open>ctx\<close> is the configuration that the incoming context
  carries; \<^verbatim>\<open>fs.AddConfig\<close> gives the request its own copy \<open>ci\<close>. Each
  \<^verbatim>\<open>return\<close> of the source is a \<open>Returned\<close> here: the bare returns give back the
  named results, of which \<^verbatim>\<open>out\<close> is still \<^verbatim>\<open>nil\<close>. In the seventeen steps of the form
  \<^verbatim>\<open>if opt.F, err = in.GetT(key); rc.NotErrParamNotFound(err) { return }\<close> the field is
  assigned before the error is looked at. \<^verbatim>\<open>Bisync\<close> is handed the bundle
  and the configuration as they are after decoding; what the engine does with them is
  not part of this file.
\<close>

definition rcBisync :: "('fs, 'cs) Env \<Rightarrow> ConfigInfo \<Rightarrow> Params \<Rightarrow> ('fs, 'cs) Returned" where
  "rcBisync env ctx ps =
     (let opt = Options_zero env;
          ci = ctx
      in
      case GetBool (Conv env) ps ''dryRun'' of (dryRun, err1) \<Rightarrow>
      if err1 \<noteq> None \<and> NotErrParamNotFound err1 then Returned None err1 ci opt [] else
      let ci = (if err1 = None then ci\<lparr>ci_DryRun := dryRun\<rparr> else ci);
          opt = (if err1 = None then opt\<lparr>DryRun := dryRun\<rparr> else opt)
      in
      case GetInt64 (Conv env) ps ''maxDelete'' of (maxDelete, err2) \<Rightarrow>
      if err2 = None \<and> (maxDelete <s 0 \<or> 100 <s maxDelete) then
        Returned None
          (Some (NewErrParamInvalid
             (ErrorsNew ''maxDelete must be a percentage between 0 and 100''))) ci opt []
      else if err2 \<noteq> None \<and> NotErrParamNotFound err2 then Returned None err2 ci opt [] else
      let opt = (if err2 = None then opt\<lparr>MaxDelete := sint maxDelete\<rparr> else opt) in
      case GetBool (Conv env) ps ''resync'' of (v, err) \<Rightarrow>
      let opt = opt\<lparr>Resync := v\<rparr> in
      if NotErrParamNotFound err then Returned None err ci opt [] else
      case GetPrefer ''resyncmode'' ps of (v, err) \<Rightarrow>
      let opt = opt\<lparr>ResyncMode := v\<rparr> in
      if NotErrParamNotFound err then Returned None err ci opt [] else
      case GetBool (Conv env) ps ''checkAccess'' of (v, err) \<Rightarrow>
      let opt = opt\<lparr>CheckAccess := v\<rparr> in
      if NotErrParamNotFound err then Returned None err ci opt [] else
      case GetBool (Conv env) ps ''force'' of (v, err) \<Rightarrow>
      let opt = opt\<lparr>Force := v\<rparr> in
      if NotErrParamNotFound err then Returned None err ci opt [] else
      case GetBool (Conv env) ps ''createEmptySrcDirs'' of (v, err) \<Rightarrow>
      let opt = opt\<lparr>CreateEmptySrcDirs := v\<rparr> in
      if NotErrParamNotFound err then Returned None err ci opt [] else
      case GetBool (Conv env) ps ''removeEmptyDirs'' of (v, err) \<Rightarrow>
      let opt = opt\<lparr>RemoveEmptyDirs := v\<rparr> in
      if NotErrParamNotFound err then Returned None err ci opt [] else
      case GetBool (Conv env) ps ''noCleanup'' of (v, err) \<Rightarrow>
      let opt = opt\<lparr>NoCleanup := v\<rparr> in
      if NotErrParamNotFound err then Returned None err ci opt [] else
      case GetBool (Conv env) ps ''ignoreListingChecksum'' of (v, err) \<Rightarrow>
      let opt = opt\<lparr>IgnoreListingChecksum := v\<rparr> in
      if NotErrParamNotFound err then Returned None err ci opt [] else
      case GetBool (Conv env) ps ''resilient'' of (v, err) \<Rightarrow>
      let opt = opt\<lparr>Resilient := v\<rparr> in
      if NotErrParamNotFound err then Returned None err ci opt [] else
      case GetBool (Conv env) ps ''recover'' of (v, err) \<Rightarrow>
      let opt = opt\<lparr>Recover := v\<rparr> in
      if NotErrParamNotFound err then Returned None err ci opt [] else
      case GetString ps ''checkFilename'' of (v, err) \<Rightarrow>
      let opt = opt\<lparr>CheckFilename := v\<rparr> in
      if NotErrParamNotFound err then Returned None err ci opt [] else
      case GetString ps ''filtersFile'' of (v, err) \<Rightarrow>
      let opt = opt\<lparr>FiltersFile := v\<rparr> in
      if NotErrParamNotFound err then Returned None err ci opt [] else
      case GetString ps ''workdir'' of (v, err) \<Rightarrow>
      let opt = opt\<lparr>Workdir := v\<rparr> in
      if NotErrParamNotFound err then Returned None err ci opt [] else
      case GetString ps ''backupdir1'' of (v, err) \<Rightarrow>
      let opt = opt\<lparr>BackupDir1 := v\<rparr> in
      if NotErrParamNotFound err then Returned None err ci opt [] else
      case GetString ps ''backupdir2'' of (v, err) \<Rightarrow>
      let opt = opt\<lparr>BackupDir2 := v\<rparr> in
      if NotErrParamNotFound err then Returned None err ci opt [] else
      case GetPrefer ''conflictresolve'' ps of (v, err) \<Rightarrow>
      let opt = opt\<lparr>ConflictResolve := v\<rparr> in
      if NotErrParamNotFound err then Returned None err ci opt [] else
      case GetString ps ''conflictsuffix'' of (v, err) \<Rightarrow>
      let opt = opt\<lparr>ConflictSuffixFlag := v\<rparr> in
      if NotErrParamNotFound err then Returned None err ci opt [] else
      case GetString ps ''checkSync'' of (checkSync, err) \<Rightarrow>
      if NotErrParamNotFound err then Returned None err ci opt [] else
      let checkSync = (if checkSync = [] then ''true'' else checkSync) in
      case CheckSync_Set env (CheckSync opt) checkSync of (cs, err3) \<Rightarrow>
      let opt = opt\<lparr>CheckSync := cs\<rparr> in
      if err3 \<noteq> None then Returned None err3 ci opt [] else
      case GetFsNamed env ci ps ''path1'' of
        Inl e \<Rightarrow> Returned None (Some e) ci opt [GetFsNamed_call ''path1'']
      | Inr fs1 \<Rightarrow>
      case GetFsNamed env ci ps ''path2'' of
        Inl e \<Rightarrow>
          Returned None (Some e) ci opt [GetFsNamed_call ''path1'', GetFsNamed_call ''path2'']
      | Inr fs2 \<Rightarrow>
      case Bisync env ci fs1 fs2 opt of (output, err) \<Rightarrow>
      Returned (Some [''output'' \<mapsto> VString output]) err ci opt
        [GetFsNamed_call ''path1'', GetFsNamed_call ''path2'',
         Bisync_call ci fs1 fs2 opt, Log_write output])"

subsection \<open>rcBisync read step by step\<close>

text \<open>
  For the proofs, the body of \<open>rcBisync\<close> is cut in three: the two leading steps
  (dryRun and maxDelete), the seventeen uniform steps as a list of pairs of the
  accessor's error and the assignment it guards, and the rest from checkSync on.
  \<open>rcBisync_stepwise\<close> below shows that the three put together are \<open>rcBisync\<close>.
\<close>

definition option_steps ::
  "('fs, 'cs) Env \<Rightarrow> Params \<Rightarrow> (error option \<times> ('cs bisync_Options \<Rightarrow> 'cs bisync_Options)) list" where
  "option_steps env ps =
     [
      (snd (GetBool (Conv env) ps ''resync''), \<lambda>opt. opt\<lparr>Resync := fst (GetBool (Conv env) ps ''resync'')\<rparr>),
      (snd (GetPrefer ''resyncmode'' ps), \<lambda>opt. opt\<lparr>ResyncMode := fst (GetPrefer ''resyncmode'' ps)\<rparr>),
      (snd (GetBool (Conv env) ps ''checkAccess''), \<lambda>opt. opt\<lparr>CheckAccess := fst (GetBool (Conv env) ps ''checkAccess'')\<rparr>),
      (snd (GetBool (Conv env) ps ''force''), \<lambda>opt. opt\<lparr>Force := fst (GetBool (Conv env) ps ''force'')\<rparr>),
      (snd (GetBool (Conv env) ps ''createEmptySrcDirs''), \<lambda>opt. opt\<lparr>CreateEmptySrcDirs := fst (GetBool (Conv env) ps ''createEmptySrcDirs'')\<rparr>),
      (snd (GetBool (Conv env) ps ''removeEmptyDirs''), \<lambda>opt. opt\<lparr>RemoveEmptyDirs := fst (GetBool (Conv env) ps ''removeEmptyDirs'')\<rparr>),
      (snd (GetBool (Conv env) ps ''noCleanup''), \<lambda>opt. opt\<lparr>NoCleanup := fst (GetBool (Conv env) ps ''noCleanup'')\<rparr>),
      (snd (GetBool (Conv env) ps ''ignoreListingChecksum''), \<lambda>opt. opt\<lparr>IgnoreListingChecksum := fst (GetBool (Conv env) ps ''ignoreListingChecksum'')\<rparr>),
      (snd (GetBool (Conv env) ps ''resilient''), \<lambda>opt. opt\<lparr>Resilient := fst (GetBool (Conv env) ps ''resilient'')\<rparr>),
      (snd (GetBool (Conv env) ps ''recover''), \<lambda>opt. opt\<lparr>Recover := fst (GetBool (Conv env) ps ''recover'')\<rparr>),
      (snd (GetString ps ''checkFilename''), \<lambda>opt. opt\<lparr>CheckFilename := fst (GetString ps ''checkFilename'')\<rparr>),
      (snd (GetString ps ''filtersFile''), \<lambda>opt. opt\<lparr>FiltersFile := fst (GetString ps ''filtersFile'')\<rparr>),
      (snd (GetString ps ''workdir''), \<lambda>opt. opt\<lparr>Workdir := fst (GetString ps ''workdir'')\<rparr>),
      (snd (GetString ps ''backupdir1''), \<lambda>opt. opt\<lparr>BackupDir1 := fst (GetString ps ''backupdir1'')\<rparr>),
      (snd (GetString ps ''backupdir2''), \<lambda>opt. opt\<lparr>BackupDir2 := fst (GetString ps ''backupdir2'')\<rparr>),
      (snd (GetPrefer ''conflictresolve'' ps), \<lambda>opt. opt\<lparr>ConflictResolve := fst (GetPrefer ''conflictresolve'' ps)\<rparr>),
      (snd (GetString ps ''conflictsuffix''), \<lambda>opt. opt\<lparr>ConflictSuffixFlag := fst (GetString ps ''conflictsuffix'')\<rparr>)]"

fun run_steps ::
  "(error option \<times> ('cs bisync_Options \<Rightarrow> 'cs bisync_Options)) list \<Rightarrow> ConfigInfo
     \<Rightarrow> 'cs bisync_Options \<Rightarrow> ('cs bisync_Options \<Rightarrow> ('fs, 'cs) Returned)
     \<Rightarrow> ('fs, 'cs) Returned" where
  "run_steps [] ci opt k = k opt"
| "run_steps ((err, upd) # ss) ci opt k =
     (if NotErrParamNotFound err then Returned None err ci (upd opt) []
      else run_steps ss ci (upd opt) k)"

definition leading_steps ::
  "('fs, 'cs) Env \<Rightarrow> ConfigInfo \<Rightarrow> Params
     \<Rightarrow> (ConfigInfo \<Rightarrow> 'cs bisync_Options \<Rightarrow> ('fs, 'cs) Returned) \<Rightarrow> ('fs, 'cs) Returned" where
  "leading_steps env ctx ps k =
     (let opt = Options_zero env;
          ci = ctx
      in
      case GetBool (Conv env) ps ''dryRun'' of (dryRun, err1) \<Rightarrow>
      if err1 \<noteq> None \<and> NotErrParamNotFound err1 then Returned None err1 ci opt [] else
      let ci = (if err1 = None then ci\<lparr>ci_DryRun := dryRun\<rparr> else ci);
          opt = (if err1 = None then opt\<lparr>DryRun := dryRun\<rparr> else opt)
      in
      case GetInt64 (Conv env) ps ''maxDelete'' of (maxDelete, err2) \<Rightarrow>
      if err2 = None \<and> (maxDelete <s 0 \<or> 100 <s maxDelete) then
        Returned None
          (Some (NewErrParamInvalid
             (ErrorsNew ''maxDelete must be a percentage between 0 and 100''))) ci opt []
      else if err2 \<noteq> None \<and> NotErrParamNotFound err2 then Returned None err2 ci opt [] else
      let opt = (if err2 = None then opt\<lparr>MaxDelete := sint maxDelete\<rparr> else opt) in
      k ci opt)"

definition closing_steps ::
  "('fs, 'cs) Env \<Rightarrow> Params \<Rightarrow> ConfigInfo \<Rightarrow> 'cs bisync_Options \<Rightarrow> ('fs, 'cs) Returned" where
  "closing_steps env ps ci opt =
     (case GetString ps ''checkSync'' of (checkSync, err) \<Rightarrow>
      if NotErrParamNotFound err then Returned None err ci opt [] else
      let checkSync = (if checkSync = [] then ''true'' else checkSync) in
      case CheckSync_Set env (CheckSync opt) checkSync of (cs, err3) \<Rightarrow>
      let opt = opt\<lparr>CheckSync := cs\<rparr> in
      if err3 \<noteq> None then Returned None err3 ci opt [] else
      case GetFsNamed env ci ps ''path1'' of
        Inl e \<Rightarrow> Returned None (Some e) ci opt [GetFsNamed_call ''path1'']
      | Inr fs1 \<Rightarrow>
      case GetFsNamed env ci ps ''path2'' of
        Inl e \<Rightarrow>
          Returned None (Some e) ci opt [GetFsNamed_call ''path1'', GetFsNamed_call ''path2'']
      | Inr fs2 \<Rightarrow>
      case Bisync env ci fs1 fs2 opt of (output, err) \<Rightarrow>
      Returned (Some [''output'' \<mapsto> VString output]) err ci opt
        [GetFsNamed_call ''path1'', GetFsNamed_call ''path2'',
         Bisync_call ci fs1 fs2 opt, Log_write output])"

text \<open>
  The configuration and the bundle after the dryRun step, and the bundle after the
  maxDelete step, when neither step returns.
\<close>

definition dryRun_ci :: "('fs, 'cs) Env \<Rightarrow> ConfigInfo \<Rightarrow> Params \<Rightarrow> ConfigInfo" where
  "dryRun_ci env ctx ps =
     (if snd (GetBool (Conv env) ps ''dryRun'') = None then ctx\<lparr>ci_DryRun := fst (GetBool (Conv env) ps ''dryRun'')\<rparr>
      else ctx)"

definition dryRun_opt :: "('fs, 'cs) Env \<Rightarrow> Params \<Rightarrow> 'cs bisync_Options" where
  "dryRun_opt env ps =
     (if snd (GetBool (Conv env) ps ''dryRun'') = None
      then (Options_zero env)\<lparr>DryRun := fst (GetBool (Conv env) ps ''dryRun'')\<rparr>
      else Options_zero env)"

definition maxDelete_opt :: "('fs, 'cs) Env \<Rightarrow> Params \<Rightarrow> 'cs bisync_Options" where
  "maxDelete_opt env ps =
     (if snd (GetInt64 (Conv env) ps ''maxDelete'') = None
      then (dryRun_opt env ps)\<lparr>MaxDelete := sint (fst (GetInt64 (Conv env) ps ''maxDelete''))\<rparr>
      else dryRun_opt env ps)"

text \<open>The bundle after all the option steps, when none of them returns.\<close>

definition decoded_opt :: "('fs, 'cs) Env \<Rightarrow> Params \<Rightarrow> 'cs bisync_Options" where
  "decoded_opt env ps = foldl (\<lambda>b eu. snd eu b) (maxDelete_opt env ps) (option_steps env ps)"

text \<open>The string that the checkSync step hands to \<^verbatim>\<open>Set\<close>.\<close>

definition checkSync_arg :: "Params \<Rightarrow> string" where
  "checkSync_arg ps =
     (if fst (GetString ps ''checkSync'') = [] then ''true'' else fst (GetString ps ''checkSync''))"

text \<open>
  No option step returns: the accessor of every option parameter before checkSync
  reports no error or the not-found error, and a maxDelete that is present lies between
  0 and 100.
\<close>

definition options_decode :: "('fs, 'cs) Env \<Rightarrow> Params \<Rightarrow> bool" where
  "options_decode env ps \<longleftrightarrow>
     \<not> NotErrParamNotFound (snd (GetBool (Conv env) ps ''dryRun''))
     \<and> \<not> NotErrParamNotFound (snd (GetInt64 (Conv env) ps ''maxDelete''))
     \<and> \<not> (snd (GetInt64 (Conv env) ps ''maxDelete'') = None
          \<and> (fst (GetInt64 (Conv env) ps ''maxDelete'') <s 0 \<or> 100 <s fst (GetInt64 (Conv env) ps ''maxDelete'')))
     \<and> list_all (\<lambda>k. \<not> NotErrParamNotFound (snd (GetBool (Conv env) ps k)))
          [''resync'', ''checkAccess'', ''force'', ''createEmptySrcDirs'', ''removeEmptyDirs'',
           ''noCleanup'', ''ignoreListingChecksum'', ''resilient'', ''recover'']
     \<and> list_all (\<lambda>k. \<not> NotErrParamNotFound (snd (GetPrefer k ps)))
          [''resyncmode'', ''conflictresolve'']
     \<and> list_all (\<lambda>k. \<not> NotErrParamNotFound (snd (GetString ps k)))
          [''checkFilename'', ''filtersFile'', ''workdir'', ''backupdir1'', ''backupdir2'',
           ''conflictsuffix'']"

text \<open>
  The checkSync step does not return: the accessor reports no error or the not-found
  error, and \<^verbatim>\<open>Set\<close> accepts the string it is given.
\<close>

definition checkSync_decodes :: "('fs, 'cs) Env \<Rightarrow> Params \<Rightarrow> bool" where
  "checkSync_decodes env ps \<longleftrightarrow>
     \<not> NotErrParamNotFound (snd (GetString ps ''checkSync''))
     \<and> snd (CheckSync_Set env (CheckSync_zero env) (checkSync_arg ps)) = None"

definition params_decode :: "('fs, 'cs) Env \<Rightarrow> Params \<Rightarrow> bool" where
  "params_decode env ps \<longleftrightarrow> options_decode env ps \<and> checkSync_decodes env ps"

text \<open>
  An environment to run the model on. The conversion to a boolean reads a string as
  \<^verbatim>\<open>strconv.ParseBool\<close> of the Go standard library does and an integer as true when
  it is not zero, and reports any other value as not a boolean; nothing else is read
  as an integer. The mode of \<open>CheckSync\<close> is a
  number set from true, false or only; a location resolves to the string given under
  its name; the engine reports an error when both locations are the same.
  \<open>counting_env\<close> is the same environment with a \<^verbatim>\<open>Set\<close> that counts its calls in
  the receiver.
\<close>

definition ParseBool :: "string \<Rightarrow> bool option" where
  "ParseBool s =
     (if s \<in> set [''1'', ''t'', ''T'', ''TRUE'', ''true'', ''True''] then Some True
      else if s \<in> set [''0'', ''f'', ''F'', ''FALSE'', ''false'', ''False''] then Some False
      else None)"

definition demo_conv :: Conversions where
  "demo_conv =
     \<lparr>ConvBool = (\<lambda>key v. case v of
         VString s \<Rightarrow>
           (case ParseBool s of
              Some b \<Rightarrow> Inr b
            | None \<Rightarrow> Inl (Errorf ''expecting bool value for key %q'' [key]))
       | VInt n \<Rightarrow> Inr (n \<noteq> 0)
       | _ \<Rightarrow> Inl (Errorf ''expecting bool value for key %q'' [key])),
      ConvInt64 = (\<lambda>key v. Inl (Errorf ''expecting integer value for key %q'' [key]))\<rparr>"

definition demo_env :: "(string, nat) Env" where
  "demo_env =
     \<lparr>Conv = demo_conv,
      CheckSync_zero = 0,
      CheckSync_Set = (\<lambda>c s.
        if s = ''true'' then (0, None)
        else if s = ''false'' then (1, None)
        else if s = ''only'' then (2, None)
        else (c, Some (ErrExternal ''unknown check-sync mode''))),
      GetFsNamed = (\<lambda>ci p name.
        case GetString p name of (s, None) \<Rightarrow> Inr s | (s, Some e) \<Rightarrow> Inl e),
      Bisync = (\<lambda>ci f1 f2 opt.
        if f1 = f2 then (''ERROR: paths overlap'', Some (ErrExternal ''paths overlap''))
        else (''Bisync successful'', None))\<rparr>"


definition demo_ctx :: ConfigInfo where
  "demo_ctx = \<lparr>ci_DryRun = False, ci_Links = False\<rparr>"

text \<open>
  Parameter maps to run the model on: the two locations alone; the five options under
  the spellings of the spec; and the same five under the spellings that \<open>rcBisync\<close>
  reads.
\<close>

definition demo_params :: Params where
  "demo_params = [''path1'' \<mapsto> VString ''remote:a'', ''path2'' \<mapsto> VString ''remote:b'']"



section \<open>Properties of the VFS options\<close>

lemma ToLower_names:
  "ToLower u ''normal'' = ''normal''"
  "ToLower u ''safe'' = ''safe''"
  "ToLower u ''aggressive'' = ''aggressive''"
  "ToLower u ''unknown'' = ''unknown''"
  by (simp_all add: ToLower_def isASCII_def toLower_char_def)

subsection \<open>TempFileHandlingMode: String and Set\<close>

lemma ToLower_isASCII: "isASCII s \<Longrightarrow> ToLower u s = map toLower_char s"
  by (simp add: ToLower_def)

text \<open>
  Claim C10. String and Set of TempFileHandlingMode round-trip on the three named modes
  and only there, whatever the library's lowering does outside ASCII: for
  TempFileNormal, TempFileSafe and TempFileAggressive, Set applied to the result of
  String succeeds and gives the mode back, whatever the receiver held before; Set
  depends on its argument only through its lowercase form (two strings with the same
  lowercase form give the same mode and the same success, in particular two ASCII
  strings that differ only in the case of their letters); Set returns an error exactly
  for the strings whose lowercase form is none of normal, safe, aggressive, and then
  leaves the receiver as it was and names the string in the error; and String of any
  other mode value is unknown, which Set rejects.
\<close>

theorem TempFileHandlingMode_roundtrip:
  "(\<forall>m\<in>{TempFileNormal, TempFileSafe, TempFileAggressive}. \<forall>m0.
      TempFileHandlingMode_Set u m0 (TempFileHandlingMode_String m) = (m, None))
   \<and> (\<forall>s t m0. ToLower u s = ToLower u t \<longrightarrow>
        fst (TempFileHandlingMode_Set u m0 s) = fst (TempFileHandlingMode_Set u m0 t)
        \<and> (snd (TempFileHandlingMode_Set u m0 s) = None
             \<longleftrightarrow> snd (TempFileHandlingMode_Set u m0 t) = None))
   \<and> (\<forall>s t m0. isASCII s \<longrightarrow> isASCII t \<longrightarrow> map toLower_char s = map toLower_char t \<longrightarrow>
        fst (TempFileHandlingMode_Set u m0 s) = fst (TempFileHandlingMode_Set u m0 t)
        \<and> (snd (TempFileHandlingMode_Set u m0 s) = None
             \<longleftrightarrow> snd (TempFileHandlingMode_Set u m0 t) = None))
   \<and> (\<forall>s m0. snd (TempFileHandlingMode_Set u m0 s) \<noteq> None
        \<longleftrightarrow> ToLower u s \<notin> {''normal'', ''safe'', ''aggressive''})
   \<and> (\<forall>s m0. snd (TempFileHandlingMode_Set u m0 s) \<noteq> None \<longrightarrow>
        TempFileHandlingMode_Set u m0 s
          = (m0, Some (Errorf ''unknown temp file handling mode %q'' [s])))
   \<and> (\<forall>m m0. m \<notin> {TempFileNormal, TempFileSafe, TempFileAggressive} \<longrightarrow>
        TempFileHandlingMode_String m = ''unknown''
        \<and> TempFileHandlingMode_Set u m0 (TempFileHandlingMode_String m)
            = (m0, Some (Errorf ''unknown temp file handling mode %q'' [''unknown''])))"
proof (intro conjI ballI allI impI)
  fix m m0 :: TempFileHandlingMode
  assume "m \<in> {TempFileNormal, TempFileSafe, TempFileAggressive}"
  then show "TempFileHandlingMode_Set u m0 (TempFileHandlingMode_String m) = (m, None)"
    by (auto simp: TempFileHandlingMode_Set_def TempFileHandlingMode_String_def ToLower_names
        TempFileNormal_def TempFileSafe_def TempFileAggressive_def)
next
  fix s t :: string and m0 :: TempFileHandlingMode
  assume "ToLower u s = ToLower u t"
  then show "fst (TempFileHandlingMode_Set u m0 s) = fst (TempFileHandlingMode_Set u m0 t)"
    by (simp add: TempFileHandlingMode_Set_def Let_def)
next
  fix s t :: string and m0 :: TempFileHandlingMode
  assume "ToLower u s = ToLower u t"
  then show "snd (TempFileHandlingMode_Set u m0 s) = None
             \<longleftrightarrow> snd (TempFileHandlingMode_Set u m0 t) = None"
    by (simp add: TempFileHandlingMode_Set_def Let_def)
next
  fix s t :: string and m0 :: TempFileHandlingMode
  assume "isASCII s" "isASCII t" "map toLower_char s = map toLower_char t"
  then have "ToLower u s = ToLower u t" by (simp add: ToLower_isASCII)
  then show "fst (TempFileHandlingMode_Set u m0 s) = fst (TempFileHandlingMode_Set u m0 t)"
    by (simp add: TempFileHandlingMode_Set_def Let_def)
next
  fix s t :: string and m0 :: TempFileHandlingMode
  assume "isASCII s" "isASCII t" "map toLower_char s = map toLower_char t"
  then have "ToLower u s = ToLower u t" by (simp add: ToLower_isASCII)
  then show "snd (TempFileHandlingMode_Set u m0 s) = None
             \<longleftrightarrow> snd (TempFileHandlingMode_Set u m0 t) = None"
    by (simp add: TempFileHandlingMode_Set_def Let_def)
next
  fix s :: string and m0 :: TempFileHandlingMode
  show "snd (TempFileHandlingMode_Set u m0 s) \<noteq> None
        \<longleftrightarrow> ToLower u s \<notin> {''normal'', ''safe'', ''aggressive''}"
    by (simp add: TempFileHandlingMode_Set_def Let_def)
next
  fix s :: string and m0 :: TempFileHandlingMode
  assume "snd (TempFileHandlingMode_Set u m0 s) \<noteq> None"
  then show "TempFileHandlingMode_Set u m0 s
          = (m0, Some (Errorf ''unknown temp file handling mode %q'' [s]))"
    by (simp add: TempFileHandlingMode_Set_def Let_def split: if_splits)
next
  fix m m0 :: TempFileHandlingMode
  assume "m \<notin> {TempFileNormal, TempFileSafe, TempFileAggressive}"
  then show "TempFileHandlingMode_String m = ''unknown''"
    by (simp add: TempFileHandlingMode_String_def)
next
  fix m m0 :: TempFileHandlingMode
  assume "m \<notin> {TempFileNormal, TempFileSafe, TempFileAggressive}"
  then show "TempFileHandlingMode_Set u m0 (TempFileHandlingMode_String m)
            = (m0, Some (Errorf ''unknown temp file handling mode %q'' [''unknown'']))"
    by (simp add: TempFileHandlingMode_String_def TempFileHandlingMode_Set_def ToLower_names)
qed

text \<open>
  The theorem of C10 at concrete inputs: upper and mixed case, the mode value 7, and
  a word with a capital I with a dot above, which the rune mapping lowers to
  aggressive and Set accepts.
\<close>

theorem TempFileHandlingMode_roundtrip_witness:
  "TempFileHandlingMode_Set demo_mapLower 0 (TempFileHandlingMode_String TempFileAggressive)
     = (2, None)
   \<and> fst (TempFileHandlingMode_Set demo_mapLower 0 ''SAFE'') = 1
   \<and> snd (TempFileHandlingMode_Set demo_mapLower 0 ''SaFe'') = None
   \<and> TempFileHandlingMode_String 7 = ''unknown''
   \<and> TempFileHandlingMode_Set demo_mapLower 1 (TempFileHandlingMode_String 7)
        = (1, Some (Errorf ''unknown temp file handling mode %q'' [''unknown'']))
   \<and> fst (TempFileHandlingMode_Set demo_mapLower 0 (''aggress'' @ [CHR 0xC4, CHR 0xB0] @ ''ve''))
        = 2
   \<and> snd (TempFileHandlingMode_Set demo_mapLower 0 (''aggress'' @ [CHR 0xC4, CHR 0xB0] @ ''ve''))
        = None"
proof -
  note r = TempFileHandlingMode_roundtrip [of demo_mapLower]
  have a: "TempFileHandlingMode_Set demo_mapLower 0 (TempFileHandlingMode_String TempFileAggressive)
            = (TempFileAggressive, None)"
    using r by blast
  have l: "ToLower demo_mapLower ''SAFE'' = ToLower demo_mapLower ''safe''"
    "ToLower demo_mapLower ''SaFe'' = ToLower demo_mapLower ''safe''"
    by code_simp+
  have i: "ToLower demo_mapLower (''aggress'' @ [CHR 0xC4, CHR 0xB0] @ ''ve'')
      = ToLower demo_mapLower ''aggressive''"
    by code_simp
  have s: "TempFileHandlingMode_Set demo_mapLower 0 ''safe'' = (1, None)"
    "TempFileHandlingMode_Set demo_mapLower 0 ''aggressive'' = (2, None)"
    by (simp_all add: TempFileHandlingMode_Set_def ToLower_names TempFileSafe_def
        TempFileAggressive_def)
  have b: "fst (TempFileHandlingMode_Set demo_mapLower 0 ''SAFE'')
      = fst (TempFileHandlingMode_Set demo_mapLower 0 ''safe'')"
    using r l(1) by blast
  have c: "snd (TempFileHandlingMode_Set demo_mapLower 0 ''SaFe'') = None
            \<longleftrightarrow> snd (TempFileHandlingMode_Set demo_mapLower 0 ''safe'') = None"
    using r l(2) by blast
  have e: "fst (TempFileHandlingMode_Set demo_mapLower 0 (''aggress'' @ [CHR 0xC4, CHR 0xB0] @ ''ve''))
      = fst (TempFileHandlingMode_Set demo_mapLower 0 ''aggressive'')"
    "snd (TempFileHandlingMode_Set demo_mapLower 0 (''aggress'' @ [CHR 0xC4, CHR 0xB0] @ ''ve'')) = None
      \<longleftrightarrow> snd (TempFileHandlingMode_Set demo_mapLower 0 ''aggressive'') = None"
    using r i by blast+
  have n: "(7::int) \<notin> {TempFileNormal, TempFileSafe, TempFileAggressive}"
    by (simp add: TempFileNormal_def TempFileSafe_def TempFileAggressive_def)
  have d: "TempFileHandlingMode_String 7 = ''unknown''
           \<and> TempFileHandlingMode_Set demo_mapLower 1 (TempFileHandlingMode_String 7)
            = (1, Some (Errorf ''unknown temp file handling mode %q'' [''unknown'']))"
    using r n by blast
  show ?thesis
    using a b c e s d [THEN conjunct1] d [THEN conjunct2]
    by (simp add: TempFileAggressive_def)
qed

subsection \<open>Options.Init\<close>

lemma type_bits_not_perm: "ModeDir AND ModePerm = 0" "ModeSymlink AND ModePerm = 0"
  by (simp_all add: ModeDir_def ModeSymlink_def ModePerm_def)

lemma masked_clear: "(p AND NOT u) AND u = (0 :: FileMode)"
  by (simp add: and.assoc)

lemma masked_typed_clear:
  assumes "t AND ModePerm = 0"
  shows "((p AND NOT u) OR t) AND u AND ModePerm = (0 :: FileMode)"
proof -
  have "((p AND NOT u) OR t) AND u AND ModePerm
        = ((p AND NOT u) AND u AND ModePerm) OR (t AND u AND ModePerm)"
    by (simp add: bit.conj_disj_distrib2 and.assoc)
  also have "(p AND NOT u) AND u AND ModePerm = 0"
    by (rule bit_eqI) (auto simp: bit_and_iff bit_not_iff)
  also have "t AND u AND ModePerm = u AND (t AND ModePerm)"
    by (simp add: and.left_commute and.assoc)
  finally show ?thesis using assms by simp
qed

lemma Init_fields:
  "DirPerms (Init ci opt) = (DirPerms opt AND NOT (Umask opt)) OR ModeDir"
  "FilePerms (Init ci opt) = FilePerms opt AND NOT (Umask opt)"
  "LinkPerms (Init ci opt) = (LinkPerms opt AND NOT (Umask opt)) OR ModeSymlink"
  "Umask (Init ci opt) = Umask opt"
  "Links (Init ci opt) = (ci_Links ci \<or> Links opt)"
  by (simp_all add: Init_def Let_def)

text \<open>
  Claim C9. For every Options value and every global configuration, after Init: DirPerms
  has the directory type bit, LinkPerms has the symlink type bit, and none of DirPerms,
  FilePerms and LinkPerms keeps a permission bit (a bit of ModePerm) that is set in
  Umask; FilePerms keeps no bit of Umask at all. Each of the three is the old value
  masked with the complement of Umask, the type bit of DirPerms and LinkPerms being put
  in after the mask, so a type bit survives even where Umask has it. Umask itself is
  unchanged, and Links afterwards is true exactly when the configuration's Links flag
  is set or Links was true before; in particular it is true when the flag is set.
\<close>

theorem Init_masks_and_types:
  "DirPerms (Init ci opt) AND ModeDir = ModeDir
   \<and> LinkPerms (Init ci opt) AND ModeSymlink = ModeSymlink
   \<and> DirPerms (Init ci opt) AND Umask (Init ci opt) AND ModePerm = 0
   \<and> FilePerms (Init ci opt) AND Umask (Init ci opt) = 0
   \<and> LinkPerms (Init ci opt) AND Umask (Init ci opt) AND ModePerm = 0
   \<and> DirPerms (Init ci opt) = (DirPerms opt AND NOT (Umask opt)) OR ModeDir
   \<and> FilePerms (Init ci opt) = FilePerms opt AND NOT (Umask opt)
   \<and> LinkPerms (Init ci opt) = (LinkPerms opt AND NOT (Umask opt)) OR ModeSymlink
   \<and> Umask (Init ci opt) = Umask opt
   \<and> Links (Init ci opt) = (ci_Links ci \<or> Links opt)"
proof (intro conjI)
  show "DirPerms (Init ci opt) AND ModeDir = ModeDir"
    by (simp add: Init_fields bit.conj_disj_distrib2)
  show "LinkPerms (Init ci opt) AND ModeSymlink = ModeSymlink"
    by (simp add: Init_fields bit.conj_disj_distrib2)
  show "DirPerms (Init ci opt) AND Umask (Init ci opt) AND ModePerm = 0"
    by (simp only: Init_fields masked_typed_clear [OF type_bits_not_perm(1)])
  show "FilePerms (Init ci opt) AND Umask (Init ci opt) = 0"
    by (simp only: Init_fields masked_clear)
  show "LinkPerms (Init ci opt) AND Umask (Init ci opt) AND ModePerm = 0"
    by (simp only: Init_fields masked_typed_clear [OF type_bits_not_perm(2)])
qed (simp_all only: Init_fields)

text \<open>
  The theorem of C9 at the defaults on Linux with umask 022 and the Links flag set:
  DirPerms is 0755 with the directory bit, FilePerms is 0644.
\<close>

theorem Init_masks_and_types_witness:
  "DirPerms (Init \<lparr>ci_DryRun = False, ci_Links = True\<rparr>
       (DefaultOpt \<lparr>GOOS = ''linux'', getUmask = 18, getUID = 1000, getGID = 1000\<rparr>))
     = 2147484141
   \<and> FilePerms (Init \<lparr>ci_DryRun = False, ci_Links = True\<rparr>
       (DefaultOpt \<lparr>GOOS = ''linux'', getUmask = 18, getUID = 1000, getGID = 1000\<rparr>))
     = 420
   \<and> Links (Init \<lparr>ci_DryRun = False, ci_Links = True\<rparr>
       (DefaultOpt \<lparr>GOOS = ''linux'', getUmask = 18, getUID = 1000, getGID = 1000\<rparr>))"
  using Init_masks_and_types [of "\<lparr>ci_DryRun = False, ci_Links = True\<rparr>"
      "DefaultOpt \<lparr>GOOS = ''linux'', getUmask = 18, getUID = 1000, getGID = 1000\<rparr>"]
  by (simp add: DefaultOpt_def ModeDir_def)

subsection \<open>OptionsInfo against DefaultOpt\<close>

lemma config_field_DefaultOpt:
  "config_field (DefaultOpt pf) name = map_of
    [(''no_seek'', BoolV False),
     (''no_checksum'', BoolV False),
     (''read_only'', BoolV False),
     (''vfs_links'', BoolV False),
     (''no_modtime'', BoolV False),
     (''dir_cache_time'', DurationV (5 * 60 * Second)),
     (''vfs_refresh'', BoolV False),
     (''poll_interval'', DurationV Minute),
     (''umask'', FileModeV (word_of_int (getUmask pf))),
     (''uid'', Uint32V (getUID pf)),
     (''gid'', Uint32V (getGID pf)),
     (''dir_perms'', FileModeV 511),
     (''file_perms'', FileModeV 438),
     (''link_perms'', FileModeV 438),
     (''vfs_read_chunk_size'', SizeSuffixV (128 * Mebi)),
     (''vfs_read_chunk_size_limit'', SizeSuffixV (- 1)),
     (''vfs_read_chunk_streams'', IntV 0),
     (''vfs_cache_mode'', CacheModeV CacheModeOff),
     (''vfs_cache_max_age'', DurationV (3600 * Second)),
     (''vfs_cache_max_size'', SizeSuffixV (- 1)),
     (''vfs_cache_min_free_space'', SizeSuffixV (- 1)),
     (''vfs_cache_poll_interval'', DurationV (60 * Second)),
     (''vfs_case_insensitive'', BoolV (GOOS pf = ''windows'' \<or> GOOS pf = ''darwin'')),
     (''vfs_block_norm_dupes'', BoolV False),
     (''vfs_write_wait'', DurationV (1000 * Millisecond)),
     (''vfs_read_wait'', DurationV (20 * Millisecond)),
     (''vfs_write_back'', DurationV (5 * Second)),
     (''vfs_read_ahead'', SizeSuffixV (0 * Mebi)),
     (''vfs_used_is_size'', BoolV False),
     (''vfs_fast_fingerprint'', BoolV False),
     (''vfs_disk_space_total_size'', SizeSuffixV (- 1))] name"
  unfolding config_field_def config_fields_def DefaultOpt_def
  by (simp only: vfs_Options.simps)

lemma OptionsInfo_agrees:
  "\<forall>oi\<in>set (OptionsInfo pf). config_field (DefaultOpt pf) (Name oi) = Some (Default oi)"
  unfolding OptionsInfo_def config_field_DefaultOpt
  by simp

lemma DefaultOpt_examples:
  "DirCacheTime (DefaultOpt pf) = 5 * Minute"
  "PollInterval (DefaultOpt pf) = Minute"
  "CacheMaxAge (DefaultOpt pf) = 3600 * Second"
  "ChunkSize (DefaultOpt pf) = 128 * 2 ^ 20"
  "CacheMaxSize (DefaultOpt pf) = - 1"
  "CaseInsensitive (DefaultOpt pf) \<longleftrightarrow> GOOS pf \<in> {''windows'', ''darwin''}"
  by (simp_all add: DefaultOpt_def Minute_def Mebi_def)

text \<open>
  Claim C8. For every entry of the OptionsInfo table, the declared Default (value and
  Go type) is the value of the field of DefaultOpt whose config tag is the entry's
  Name. In particular DefaultOpt has dir_cache_time of 5 minutes, poll_interval of 1
  minute, vfs_cache_max_age of 3600 seconds, vfs_read_chunk_size of 128 Mi and
  vfs_cache_max_size of -1, and vfs_case_insensitive is true exactly when GOOS is
  windows or darwin. The package-level Opt is initialised to DefaultOpt. The platform
  (GOOS, umask, uid, gid) is a parameter, read to the same values by the table and by
  DefaultOpt.
\<close>

theorem OptionsInfo_defaults_are_DefaultOpt:
  "(\<forall>oi\<in>set (OptionsInfo pf). config_field (DefaultOpt pf) (Name oi) = Some (Default oi))
   \<and> DirCacheTime (DefaultOpt pf) = 5 * Minute
   \<and> PollInterval (DefaultOpt pf) = Minute
   \<and> CacheMaxAge (DefaultOpt pf) = 3600 * Second
   \<and> ChunkSize (DefaultOpt pf) = 128 * 2 ^ 20
   \<and> CacheMaxSize (DefaultOpt pf) = - 1
   \<and> (CaseInsensitive (DefaultOpt pf) \<longleftrightarrow> GOOS pf \<in> {''windows'', ''darwin''})
   \<and> Opt pf = DefaultOpt pf"
  using OptionsInfo_agrees [of pf] DefaultOpt_examples [of pf]
  by (simp only: Opt_def simp_thms)

lemma OptionsInfo_mem:
  "\<lparr>Name = ''vfs_case_insensitive'',
     Default = BoolV (GOOS pf = ''windows'' \<or> GOOS pf = ''darwin''), Groups = ''VFS''\<rparr>
     \<in> set (OptionsInfo pf)"
  "\<lparr>Name = ''umask'', Default = FileModeV (word_of_int (getUmask pf)), Groups = ''VFS''\<rparr>
     \<in> set (OptionsInfo pf)"
  by (simp_all add: OptionsInfo_def)

text \<open>
  The theorem of C8 on macOS with umask 022: two entries of the table looked up by
  name, and two of the example defaults as numbers.
\<close>

theorem OptionsInfo_defaults_are_DefaultOpt_witness:
  "config_field (DefaultOpt \<lparr>GOOS = ''darwin'', getUmask = 18, getUID = 501, getGID = 20\<rparr>)
      ''vfs_case_insensitive'' = Some (BoolV True)
   \<and> config_field (DefaultOpt \<lparr>GOOS = ''darwin'', getUmask = 18, getUID = 501, getGID = 20\<rparr>)
      ''umask'' = Some (FileModeV 18)
   \<and> ChunkSize (DefaultOpt \<lparr>GOOS = ''darwin'', getUmask = 18, getUID = 501, getGID = 20\<rparr>)
      = 134217728
   \<and> DirCacheTime (DefaultOpt \<lparr>GOOS = ''darwin'', getUmask = 18, getUID = 501, getGID = 20\<rparr>)
      = 300000000000"
proof -
  let ?pf = "\<lparr>GOOS = ''darwin'', getUmask = 18, getUID = 501, getGID = 20\<rparr>"
  note t = OptionsInfo_defaults_are_DefaultOpt [of ?pf]
  from t have b: "\<forall>oi\<in>set (OptionsInfo ?pf).
      config_field (DefaultOpt ?pf) (Name oi) = Some (Default oi)"
    by (rule conjunct1)
  have "config_field (DefaultOpt ?pf) ''vfs_case_insensitive'' = Some (BoolV True)"
    using bspec [OF b OptionsInfo_mem(1) [of ?pf]] by simp
  moreover have "config_field (DefaultOpt ?pf) ''umask'' = Some (FileModeV 18)"
    using bspec [OF b OptionsInfo_mem(2) [of ?pf]] by simp
  moreover have "ChunkSize (DefaultOpt ?pf) = 134217728"
    using t by simp
  moreover have "DirCacheTime (DefaultOpt ?pf) = 300000000000"
    using t by (simp add: Minute_def Second_def Millisecond_def)
  ultimately show ?thesis by (simp only: simp_thms)
qed

section \<open>Properties of GetPrefer and rcBisync\<close>

subsection \<open>Errors and the stepwise reading\<close>

lemma NotErrParamNotFound_simps:
  "\<not> NotErrParamNotFound None"
  "\<not> NotErrParamNotFound (Some (ErrParamNotFound k))"
  "NotErrParamNotFound (Some (ErrParamInvalid e))"
  "NotErrParamNotFound (Some (Errorf f as))"
  "NotErrParamNotFound (Some (ErrorsNew m))"
  "NotErrParamNotFound (Some (ErrExternal m))"
  by (simp_all add: NotErrParamNotFound_def)

lemma NotErrParamNotFound_Some: "NotErrParamNotFound e \<Longrightarrow> e \<noteq> None"
  by (cases e) (simp_all add: NotErrParamNotFound_def)

lemma rcBisync_stepwise:
  "rcBisync env ctx ps =
     leading_steps env ctx ps
       (\<lambda>ci opt. run_steps (option_steps env ps) ci opt (closing_steps env ps ci))"
  unfolding rcBisync_def leading_steps_def closing_steps_def option_steps_def
  by (simp only: run_steps.simps Let_def case_prod_beta)

lemma leading_steps_eq:
  "leading_steps env ctx ps k =
     (if NotErrParamNotFound (snd (GetBool (Conv env) ps ''dryRun''))
      then Returned None (snd (GetBool (Conv env) ps ''dryRun'')) ctx (Options_zero env) []
      else if snd (GetInt64 (Conv env) ps ''maxDelete'') = None
              \<and> (fst (GetInt64 (Conv env) ps ''maxDelete'') <s 0 \<or> 100 <s fst (GetInt64 (Conv env) ps ''maxDelete''))
      then Returned None
             (Some (ErrParamInvalid
                (ErrorsNew ''maxDelete must be a percentage between 0 and 100'')))
             (dryRun_ci env ctx ps) (dryRun_opt env ps) []
      else if NotErrParamNotFound (snd (GetInt64 (Conv env) ps ''maxDelete''))
      then Returned None (snd (GetInt64 (Conv env) ps ''maxDelete'')) (dryRun_ci env ctx ps) (dryRun_opt env ps) []
      else k (dryRun_ci env ctx ps) (maxDelete_opt env ps))"
proof -
  obtain dryRun err1 where g1: "GetBool (Conv env) ps ''dryRun'' = (dryRun, err1)"
    by (cases "GetBool (Conv env) ps ''dryRun''")
  obtain maxDelete err2 where g2: "GetInt64 (Conv env) ps ''maxDelete'' = (maxDelete, err2)"
    by (cases "GetInt64 (Conv env) ps ''maxDelete''")
  note defs = leading_steps_def dryRun_ci_def dryRun_opt_def maxDelete_opt_def
    NewErrParamInvalid_def Let_def g1 g2 fst_conv snd_conv prod.case
  consider (abort1) e where "err1 = Some e" "NotErrParamNotFound err1"
    | (range) "\<not> NotErrParamNotFound err1" "err2 = None" "maxDelete <s 0 \<or> 100 <s maxDelete"
    | (abort2) e where "\<not> NotErrParamNotFound err1" "err2 = Some e" "NotErrParamNotFound err2"
    | (go) "\<not> NotErrParamNotFound err1" "\<not> NotErrParamNotFound err2"
        "\<not> (err2 = None \<and> (maxDelete <s 0 \<or> 100 <s maxDelete))"
    by (cases err1; cases err2) (auto simp: NotErrParamNotFound_simps)
  then show ?thesis
  proof cases
    case abort1
    then show ?thesis by (simp only: defs) simp
  next
    case range
    then show ?thesis by (simp only: defs) simp
  next
    case abort2
    then show ?thesis by (simp only: defs) simp
  next
    case go
    then show ?thesis by (simp only: defs) (cases err2; simp)
  qed
qed

lemma run_steps_ok:
  "\<forall>eu\<in>set ss. \<not> NotErrParamNotFound (fst eu)
     \<Longrightarrow> run_steps ss ci opt k = k (foldl (\<lambda>b eu. snd eu b) opt ss)"
  by (induction ss arbitrary: opt) auto

lemma run_steps_abort:
  "\<exists>eu\<in>set ss. NotErrParamNotFound (fst eu)
     \<Longrightarrow> ret_out (run_steps ss ci opt k) = None
       \<and> NotErrParamNotFound (ret_err (run_steps ss ci opt k))
       \<and> ret_err (run_steps ss ci opt k) \<in> fst ` set ss
       \<and> ret_ci (run_steps ss ci opt k) = ci
       \<and> ret_events (run_steps ss ci opt k) = []"
proof (induction ss arbitrary: opt)
  case Nil
  then show ?case by simp
next
  case (Cons eu ss)
  obtain e u where eu: "eu = (e, u)" by (cases eu)
  show ?case
  proof (cases "NotErrParamNotFound e")
    case True
    then show ?thesis by (simp add: eu Returned_def)
  next
    case False
    with Cons.prems eu have "\<exists>eu\<in>set ss. NotErrParamNotFound (fst eu)" by auto
    from Cons.IH [OF this, of "u opt"] show ?thesis using False eu by simp
  qed
qed

lemma run_steps_inv:
  assumes "\<And>e u b. (e, u) \<in> set ss \<Longrightarrow> P b \<Longrightarrow> P (u b)"
    and "P opt"
    and "\<And>e b. P b \<Longrightarrow> Q (Returned None e ci b [])"
    and "\<And>b. P b \<Longrightarrow> Q (k b)"
  shows "Q (run_steps ss ci opt k)"
  using assms
proof (induction ss arbitrary: opt)
  case Nil
  then show ?case by simp
next
  case (Cons eu ss)
  obtain e u where eu: "eu = (e, u)" by (cases eu)
  have Pu: "P (u opt)" using Cons.prems(1) [of e u opt] Cons.prems(2) eu by simp
  show ?case
  proof (cases "NotErrParamNotFound e")
    case True
    then show ?thesis using Cons.prems(3) [OF Pu] eu by simp
  next
    case False
    have "Q (run_steps ss ci (u opt) k)"
      by (rule Cons.IH) (use Cons.prems Pu in auto)
    then show ?thesis using False eu by simp
  qed
qed

lemma options_decode_steps:
  "options_decode env ps \<longleftrightarrow>
     \<not> NotErrParamNotFound (snd (GetBool (Conv env) ps ''dryRun''))
     \<and> \<not> NotErrParamNotFound (snd (GetInt64 (Conv env) ps ''maxDelete''))
     \<and> \<not> (snd (GetInt64 (Conv env) ps ''maxDelete'') = None
          \<and> (fst (GetInt64 (Conv env) ps ''maxDelete'') <s 0 \<or> 100 <s fst (GetInt64 (Conv env) ps ''maxDelete'')))
     \<and> (\<forall>eu\<in>set (option_steps env ps :: (error option \<times> ('cs bisync_Options \<Rightarrow> 'cs bisync_Options)) list).
           \<not> NotErrParamNotFound (fst eu))"
  unfolding options_decode_def option_steps_def
  by (simp add: list_all_iff) blast

subsection \<open>The three parts of rcBisync\<close>

lemma closing_steps_eq:
  "closing_steps env ps ci b =
     (if NotErrParamNotFound (snd (GetString ps ''checkSync''))
      then Returned None (snd (GetString ps ''checkSync'')) ci b []
      else if snd (CheckSync_Set env (CheckSync b) (checkSync_arg ps)) \<noteq> None
      then Returned None (snd (CheckSync_Set env (CheckSync b) (checkSync_arg ps))) ci
             (b\<lparr>CheckSync := fst (CheckSync_Set env (CheckSync b) (checkSync_arg ps))\<rparr>) []
      else case GetFsNamed env ci ps ''path1'' of
        Inl e \<Rightarrow>
          Returned None (Some e) ci
            (b\<lparr>CheckSync := fst (CheckSync_Set env (CheckSync b) (checkSync_arg ps))\<rparr>)
            [GetFsNamed_call ''path1'']
      | Inr fs1 \<Rightarrow>
      case GetFsNamed env ci ps ''path2'' of
        Inl e \<Rightarrow>
          Returned None (Some e) ci
            (b\<lparr>CheckSync := fst (CheckSync_Set env (CheckSync b) (checkSync_arg ps))\<rparr>)
            [GetFsNamed_call ''path1'', GetFsNamed_call ''path2'']
      | Inr fs2 \<Rightarrow>
          Returned
            (Some [''output'' \<mapsto> VString (fst (Bisync env ci fs1 fs2
               (b\<lparr>CheckSync := fst (CheckSync_Set env (CheckSync b) (checkSync_arg ps))\<rparr>)))])
            (snd (Bisync env ci fs1 fs2
               (b\<lparr>CheckSync := fst (CheckSync_Set env (CheckSync b) (checkSync_arg ps))\<rparr>)))
            ci
            (b\<lparr>CheckSync := fst (CheckSync_Set env (CheckSync b) (checkSync_arg ps))\<rparr>)
            [GetFsNamed_call ''path1'', GetFsNamed_call ''path2'',
             Bisync_call ci fs1 fs2
               (b\<lparr>CheckSync := fst (CheckSync_Set env (CheckSync b) (checkSync_arg ps))\<rparr>),
             Log_write (fst (Bisync env ci fs1 fs2
               (b\<lparr>CheckSync := fst (CheckSync_Set env (CheckSync b) (checkSync_arg ps))\<rparr>)))])"
  unfolding closing_steps_def checkSync_arg_def
  by (simp only: Let_def case_prod_beta)

lemma closing_steps_ci: "ret_ci (closing_steps env ps ci b) = ci"
  unfolding closing_steps_eq by (simp add: Returned_def split: sum.split)

lemma closing_steps_opt:
  "ret_opt (closing_steps env ps ci b) =
     (if NotErrParamNotFound (snd (GetString ps ''checkSync'')) then b
      else b\<lparr>CheckSync := fst (CheckSync_Set env (CheckSync b) (checkSync_arg ps))\<rparr>)"
  unfolding closing_steps_eq by (simp add: Returned_def split: sum.split)

lemma closing_steps_Bisync_call:
  assumes "Bisync_call c f1 f2 b' \<in> set (ret_events (closing_steps env ps ci b))"
  shows "c = ci \<and> b' = ret_opt (closing_steps env ps ci b)"
  using assms unfolding closing_steps_eq
  by (auto simp: Returned_def split: sum.splits if_splits)

lemma decoded_opt_fields:
  "DryRun (decoded_opt env ps) = DryRun (dryRun_opt env ps)"
  "MaxDelete (decoded_opt env ps) = MaxDelete (maxDelete_opt env ps)"
  "Resync (decoded_opt env ps) = fst (GetBool (Conv env) ps ''resync'')"
  "ResyncMode (decoded_opt env ps) = fst (GetPrefer ''resyncmode'' ps)"
  "CheckAccess (decoded_opt env ps) = fst (GetBool (Conv env) ps ''checkAccess'')"
  "Force (decoded_opt env ps) = fst (GetBool (Conv env) ps ''force'')"
  "CreateEmptySrcDirs (decoded_opt env ps) = fst (GetBool (Conv env) ps ''createEmptySrcDirs'')"
  "RemoveEmptyDirs (decoded_opt env ps) = fst (GetBool (Conv env) ps ''removeEmptyDirs'')"
  "NoCleanup (decoded_opt env ps) = fst (GetBool (Conv env) ps ''noCleanup'')"
  "IgnoreListingChecksum (decoded_opt env ps) = fst (GetBool (Conv env) ps ''ignoreListingChecksum'')"
  "Resilient (decoded_opt env ps) = fst (GetBool (Conv env) ps ''resilient'')"
  "Recover (decoded_opt env ps) = fst (GetBool (Conv env) ps ''recover'')"
  "CheckFilename (decoded_opt env ps) = fst (GetString ps ''checkFilename'')"
  "FiltersFile (decoded_opt env ps) = fst (GetString ps ''filtersFile'')"
  "Workdir (decoded_opt env ps) = fst (GetString ps ''workdir'')"
  "BackupDir1 (decoded_opt env ps) = fst (GetString ps ''backupdir1'')"
  "BackupDir2 (decoded_opt env ps) = fst (GetString ps ''backupdir2'')"
  "ConflictResolve (decoded_opt env ps) = fst (GetPrefer ''conflictresolve'' ps)"
  "ConflictSuffixFlag (decoded_opt env ps) = fst (GetString ps ''conflictsuffix'')"
  "CheckSync (decoded_opt env ps) = CheckSync_zero env"
  unfolding decoded_opt_def option_steps_def
  by (simp_all add: maxDelete_opt_def dryRun_opt_def Options_zero_def)

lemma rcBisync_decoded:
  assumes "options_decode env ps"
  shows "rcBisync env ctx ps = closing_steps env ps (dryRun_ci env ctx ps) (decoded_opt env ps)"
proof -
  from assms have h: "\<not> NotErrParamNotFound (snd (GetBool (Conv env) ps ''dryRun''))"
    "\<not> NotErrParamNotFound (snd (GetInt64 (Conv env) ps ''maxDelete''))"
    "\<not> (snd (GetInt64 (Conv env) ps ''maxDelete'') = None
          \<and> (fst (GetInt64 (Conv env) ps ''maxDelete'') <s 0 \<or> 100 <s fst (GetInt64 (Conv env) ps ''maxDelete'')))"
    and s: "\<forall>eu\<in>set (option_steps env ps
          :: (error option \<times> ('b bisync_Options \<Rightarrow> 'b bisync_Options)) list).
        \<not> NotErrParamNotFound (fst eu)"
    unfolding options_decode_steps [where 'cs = 'b] by blast+
  show ?thesis
    unfolding rcBisync_stepwise leading_steps_eq decoded_opt_def
    using h by (simp only: if_False run_steps_ok [OF s])
qed

lemma rcBisync_not_decoded:
  assumes "\<not> options_decode env ps"
  shows "ret_out (rcBisync env ctx ps) = None
         \<and> NotErrParamNotFound (ret_err (rcBisync env ctx ps))
         \<and> ret_ci (rcBisync env ctx ps) = dryRun_ci env ctx ps
         \<and> ret_events (rcBisync env ctx ps) = []"
proof -
  let ?ss = "option_steps env ps :: (error option \<times> ('b bisync_Options \<Rightarrow> 'b bisync_Options)) list"
  consider (dry) "NotErrParamNotFound (snd (GetBool (Conv env) ps ''dryRun''))"
    | (range) "\<not> NotErrParamNotFound (snd (GetBool (Conv env) ps ''dryRun''))"
        "snd (GetInt64 (Conv env) ps ''maxDelete'') = None
          \<and> (fst (GetInt64 (Conv env) ps ''maxDelete'') <s 0 \<or> 100 <s fst (GetInt64 (Conv env) ps ''maxDelete''))"
    | (maxd) "\<not> NotErrParamNotFound (snd (GetBool (Conv env) ps ''dryRun''))"
        "\<not> (snd (GetInt64 (Conv env) ps ''maxDelete'') = None
          \<and> (fst (GetInt64 (Conv env) ps ''maxDelete'') <s 0 \<or> 100 <s fst (GetInt64 (Conv env) ps ''maxDelete'')))"
        "NotErrParamNotFound (snd (GetInt64 (Conv env) ps ''maxDelete''))"
    | (step) "\<not> NotErrParamNotFound (snd (GetBool (Conv env) ps ''dryRun''))"
        "\<not> (snd (GetInt64 (Conv env) ps ''maxDelete'') = None
          \<and> (fst (GetInt64 (Conv env) ps ''maxDelete'') <s 0 \<or> 100 <s fst (GetInt64 (Conv env) ps ''maxDelete'')))"
        "\<not> NotErrParamNotFound (snd (GetInt64 (Conv env) ps ''maxDelete''))"
        "\<exists>eu\<in>set ?ss. NotErrParamNotFound (fst eu)"
    using assms unfolding options_decode_steps [where 'cs = 'b] by blast
  then show ?thesis
  proof cases
    case dry
    then have "snd (GetBool (Conv env) ps ''dryRun'') \<noteq> None" by (rule NotErrParamNotFound_Some)
    with dry show ?thesis
      unfolding rcBisync_stepwise leading_steps_eq
      by (auto simp: Returned_def dryRun_ci_def)
  next
    case range
    then show ?thesis
      unfolding rcBisync_stepwise leading_steps_eq
      by (simp add: Returned_def NotErrParamNotFound_simps)
  next
    case maxd
    then show ?thesis
      unfolding rcBisync_stepwise leading_steps_eq
      by (auto simp: Returned_def NotErrParamNotFound_simps)
  next
    case step
    have "rcBisync env ctx ps
          = run_steps ?ss (dryRun_ci env ctx ps) (maxDelete_opt env ps)
              (closing_steps env ps (dryRun_ci env ctx ps))"
      unfolding rcBisync_stepwise leading_steps_eq using step(1-3) by (simp only: if_False)
    with run_steps_abort [OF step(4), of "dryRun_ci env ctx ps" "maxDelete_opt env ps"
        "closing_steps env ps (dryRun_ci env ctx ps)"]
    show ?thesis by simp
  qed
qed

lemma rcBisync_ret_ci: "ret_ci (rcBisync env ctx ps) = dryRun_ci env ctx ps"
proof (cases "options_decode env ps")
  case True
  then show ?thesis by (simp add: rcBisync_decoded closing_steps_ci)
next
  case False
  then show ?thesis by (simp add: rcBisync_not_decoded)
qed

lemma rcBisync_opt_invariant:
  fixes env :: "('fs, 'cs) Env" and P :: "'cs bisync_Options \<Rightarrow> bool"
  assumes head: "\<not> NotErrParamNotFound (snd (GetBool (Conv env) ps ''dryRun''))"
      "\<not> (snd (GetInt64 (Conv env) ps ''maxDelete'') = None
          \<and> (fst (GetInt64 (Conv env) ps ''maxDelete'') <s 0 \<or> 100 <s fst (GetInt64 (Conv env) ps ''maxDelete'')))"
      "\<not> NotErrParamNotFound (snd (GetInt64 (Conv env) ps ''maxDelete''))"
    and start: "P (maxDelete_opt env ps)"
    and steps: "\<And>e u b. (e, u) \<in> set (option_steps env ps) \<Longrightarrow> P b \<Longrightarrow> P (u b)"
    and last: "\<And>b c. P b \<Longrightarrow> P (b\<lparr>CheckSync := c\<rparr>)"
  shows "P (ret_opt (rcBisync env ctx ps))"
proof -
  have eq: "rcBisync env ctx ps
          = run_steps (option_steps env ps) (dryRun_ci env ctx ps) (maxDelete_opt env ps)
              (closing_steps env ps (dryRun_ci env ctx ps))"
    unfolding rcBisync_stepwise leading_steps_eq using head by (simp only: if_False)
  show ?thesis
    unfolding eq
  proof (rule run_steps_inv [where P = P])
    show "P (maxDelete_opt env ps)" by (rule start)
  next
    fix e and u :: "'cs bisync_Options \<Rightarrow> 'cs bisync_Options" and b :: "'cs bisync_Options"
    assume "(e, u) \<in> set (option_steps env ps)" "P b"
    then show "P (u b)" by (rule steps)
  next
    fix e and b :: "'cs bisync_Options"
    assume "P b"
    then show "P (ret_opt (Returned None e (dryRun_ci env ctx ps) b []))"
      by (simp add: Returned_def)
  next
    fix b :: "'cs bisync_Options"
    assume "P b"
    then show "P (ret_opt (closing_steps env ps (dryRun_ci env ctx ps) b))"
      by (simp add: closing_steps_opt last)
  qed
qed

lemma rcBisync_head_cases:
  fixes env :: "('fs, 'cs) Env"
  obtains (dry) "NotErrParamNotFound (snd (GetBool (Conv env) ps ''dryRun''))"
      "rcBisync env ctx ps
        = Returned None (snd (GetBool (Conv env) ps ''dryRun'')) ctx (Options_zero env) []"
  | (range) "\<not> NotErrParamNotFound (snd (GetBool (Conv env) ps ''dryRun''))"
      "snd (GetInt64 (Conv env) ps ''maxDelete'') = None"
      "fst (GetInt64 (Conv env) ps ''maxDelete'') <s 0 \<or> 100 <s fst (GetInt64 (Conv env) ps ''maxDelete'')"
      "rcBisync env ctx ps
        = Returned None
            (Some (ErrParamInvalid
               (ErrorsNew ''maxDelete must be a percentage between 0 and 100'')))
            (dryRun_ci env ctx ps) (dryRun_opt env ps) []"
  | (maxd) "\<not> NotErrParamNotFound (snd (GetBool (Conv env) ps ''dryRun''))"
      "NotErrParamNotFound (snd (GetInt64 (Conv env) ps ''maxDelete''))"
      "rcBisync env ctx ps
        = Returned None (snd (GetInt64 (Conv env) ps ''maxDelete'')) (dryRun_ci env ctx ps)
            (dryRun_opt env ps) []"
  | (pass) "\<not> NotErrParamNotFound (snd (GetBool (Conv env) ps ''dryRun''))"
      "\<not> (snd (GetInt64 (Conv env) ps ''maxDelete'') = None
          \<and> (fst (GetInt64 (Conv env) ps ''maxDelete'') <s 0 \<or> 100 <s fst (GetInt64 (Conv env) ps ''maxDelete'')))"
      "\<not> NotErrParamNotFound (snd (GetInt64 (Conv env) ps ''maxDelete''))"
proof (cases "NotErrParamNotFound (snd (GetBool (Conv env) ps ''dryRun''))")
  case True
  then have "rcBisync env ctx ps
        = Returned None (snd (GetBool (Conv env) ps ''dryRun'')) ctx (Options_zero env) []"
    unfolding rcBisync_stepwise leading_steps_eq by simp
  with True show ?thesis by (rule dry)
next
  case d: False
  show ?thesis
  proof (cases "snd (GetInt64 (Conv env) ps ''maxDelete'') = None
          \<and> (fst (GetInt64 (Conv env) ps ''maxDelete'') <s 0 \<or> 100 <s fst (GetInt64 (Conv env) ps ''maxDelete''))")
    case True
    then have "rcBisync env ctx ps
        = Returned None
            (Some (ErrParamInvalid
               (ErrorsNew ''maxDelete must be a percentage between 0 and 100'')))
            (dryRun_ci env ctx ps) (dryRun_opt env ps) []"
      unfolding rcBisync_stepwise leading_steps_eq using d by simp
    with d True show ?thesis using range by blast
  next
    case r: False
    show ?thesis
    proof (cases "NotErrParamNotFound (snd (GetInt64 (Conv env) ps ''maxDelete''))")
      case True
      then have "rcBisync env ctx ps
        = Returned None (snd (GetInt64 (Conv env) ps ''maxDelete'')) (dryRun_ci env ctx ps)
            (dryRun_opt env ps) []"
        unfolding rcBisync_stepwise leading_steps_eq using d r
        by (auto simp: NotErrParamNotFound_simps)
      with d True show ?thesis using maxd by blast
    next
      case False
      then show ?thesis using d r pass by blast
    qed
  qed
qed

lemma rcBisync_ret_DryRun:
  fixes env :: "('fs, 'cs) Env"
  shows "DryRun (ret_opt (rcBisync env ctx ps)) = DryRun (dryRun_opt env ps)"
proof (cases rule: rcBisync_head_cases [where ps = ps and env = env and ctx = ctx])
  case dry
  then have "snd (GetBool (Conv env) ps ''dryRun'') \<noteq> None" by (auto dest: NotErrParamNotFound_Some)
  then show ?thesis by (auto simp: dry(2) Returned_def dryRun_opt_def)
next
  case range
  then show ?thesis by (simp add: Returned_def)
next
  case maxd
  then show ?thesis by (simp add: Returned_def)
next
  case pass
  then show ?thesis
  proof (rule rcBisync_opt_invariant)
    show "DryRun (maxDelete_opt env ps) = DryRun (dryRun_opt env ps)"
      by (simp add: maxDelete_opt_def)
  next
    fix e and u :: "'cs bisync_Options \<Rightarrow> 'cs bisync_Options" and b :: "'cs bisync_Options"
    assume "(e, u) \<in> set (option_steps env ps)" "DryRun b = DryRun (dryRun_opt env ps)"
    then show "DryRun (u b) = DryRun (dryRun_opt env ps)"
      unfolding option_steps_def by auto
  qed simp
qed


lemma rcBisync_Bisync_call:
  assumes "Bisync_call c f1 f2 b \<in> set (ret_events (rcBisync env ctx ps))"
  shows "c = ret_ci (rcBisync env ctx ps) \<and> b = ret_opt (rcBisync env ctx ps)
         \<and> options_decode env ps"
proof (cases "options_decode env ps")
  case True
  with assms show ?thesis
    by (simp add: rcBisync_decoded closing_steps_ci closing_steps_Bisync_call)
next
  case False
  with assms show ?thesis by (simp add: rcBisync_not_decoded)
qed

subsection \<open>The accessors\<close>


subsection \<open>GetPrefer\<close>

text \<open>
  Claim C2. For a string present under the key, GetPrefer gives PreferNone for none,
  PreferPath1 for path1, PreferPath2 for path2, PreferNewer for newer, PreferOlder for
  older, PreferLarger for larger and PreferSmaller for smaller, each without error,
  and the seven values are pairwise different; for every other string it gives
  PreferNone with the invalid-parameter error whose message is formatted from the
  string and the key; so it succeeds on a string exactly when the string is one of the
  seven names.
\<close>

theorem GetPrefer_names:
  "(ps key = Some (VString ''none'') \<longrightarrow> GetPrefer key ps = (PreferNone, None))
   \<and> (ps key = Some (VString ''path1'') \<longrightarrow> GetPrefer key ps = (PreferPath1, None))
   \<and> (ps key = Some (VString ''path2'') \<longrightarrow> GetPrefer key ps = (PreferPath2, None))
   \<and> (ps key = Some (VString ''newer'') \<longrightarrow> GetPrefer key ps = (PreferNewer, None))
   \<and> (ps key = Some (VString ''older'') \<longrightarrow> GetPrefer key ps = (PreferOlder, None))
   \<and> (ps key = Some (VString ''larger'') \<longrightarrow> GetPrefer key ps = (PreferLarger, None))
   \<and> (ps key = Some (VString ''smaller'') \<longrightarrow> GetPrefer key ps = (PreferSmaller, None))
   \<and> distinct [PreferNone, PreferPath1, PreferPath2, PreferNewer, PreferOlder, PreferLarger,
        PreferSmaller]
   \<and> (\<forall>s. ps key = Some (VString s) \<longrightarrow>
        s \<notin> {''none'', ''path1'', ''path2'', ''newer'', ''older'', ''larger'', ''smaller''} \<longrightarrow>
        GetPrefer key ps
          = (PreferNone,
             Some (ErrParamInvalid (Errorf ''invalid prefer value %q for key %q'' [s, key]))))
   \<and> (\<forall>s. ps key = Some (VString s) \<longrightarrow>
        (snd (GetPrefer key ps) = None
          \<longleftrightarrow> s \<in> {''none'', ''path1'', ''path2'', ''newer'', ''older'', ''larger'', ''smaller''}))"
proof -
  have ok: "GetPrefer key ps =
      (if s = ''none'' then (PreferNone, None)
       else if s = ''path1'' then (PreferPath1, None)
       else if s = ''path2'' then (PreferPath2, None)
       else if s = ''newer'' then (PreferNewer, None)
       else if s = ''older'' then (PreferOlder, None)
       else if s = ''larger'' then (PreferLarger, None)
       else if s = ''smaller'' then (PreferSmaller, None)
       else (PreferNone,
             Some (ErrParamInvalid (Errorf ''invalid prefer value %q for key %q'' [s, key]))))"
    if "ps key = Some (VString s)" for s
    using that by (simp add: GetPrefer_def GetString_def)
  show ?thesis
  proof (intro conjI allI impI)
    fix s
    assume "ps key = Some (VString s)"
    then show "snd (GetPrefer key ps) = None
          \<longleftrightarrow> s \<in> {''none'', ''path1'', ''path2'', ''newer'', ''older'', ''larger'', ''smaller''}"
      by (simp add: ok)
  qed (simp_all add: ok)
qed

text \<open>The theorem of C2 on a map holding newer, and on one holding the unlisted value latest.\<close>

theorem GetPrefer_names_witness:
  "GetPrefer ''conflictresolve'' [''conflictresolve'' \<mapsto> VString ''newer''] = (PreferNewer, None)
   \<and> GetPrefer ''conflictresolve'' [''conflictresolve'' \<mapsto> VString ''latest'']
       = (PreferNone,
          Some (ErrParamInvalid
            (Errorf ''invalid prefer value %q for key %q'' [''latest'', ''conflictresolve''])))"
proof -
  have "GetPrefer ''conflictresolve'' [''conflictresolve'' \<mapsto> VString ''newer'']
          = (PreferNewer, None)"
    using GetPrefer_names [of "[''conflictresolve'' \<mapsto> VString ''newer'']" "''conflictresolve''"]
    by simp
  moreover have "GetPrefer ''conflictresolve'' [''conflictresolve'' \<mapsto> VString ''latest'']
       = (PreferNone,
          Some (ErrParamInvalid
            (Errorf ''invalid prefer value %q for key %q'' [''latest'', ''conflictresolve''])))"
    using GetPrefer_names [of "[''conflictresolve'' \<mapsto> VString ''latest'']" "''conflictresolve''"]
    by simp
  ultimately show ?thesis by (rule conjI)
qed

subsection \<open>dryRun\<close>

lemma rcBisync_dryRun_read:
  fixes env :: "('fs, 'cs) Env"
  assumes g: "GetBool (Conv env) ps ''dryRun'' = (b, None)"
  shows "ci_DryRun (ret_ci (rcBisync env ctx ps)) = b"
    and "DryRun (ret_opt (rcBisync env ctx ps)) = b"
    and "Bisync_call c f1 f2 sent \<in> set (ret_events (rcBisync env ctx ps))
          \<Longrightarrow> ci_DryRun c = b \<and> DryRun sent = b"
proof -
  show c: "ci_DryRun (ret_ci (rcBisync env ctx ps)) = b"
    by (simp add: rcBisync_ret_ci dryRun_ci_def g)
  show d: "DryRun (ret_opt (rcBisync env ctx ps)) = b"
    by (simp add: rcBisync_ret_DryRun dryRun_opt_def g)
  assume "Bisync_call c f1 f2 sent \<in> set (ret_events (rcBisync env ctx ps))"
  from rcBisync_Bisync_call [OF this] c d
  show "ci_DryRun c = b \<and> DryRun sent = b" by simp
qed

text \<open>
  Claim C7, amended. When dryRun is present as a boolean, that value is in the DryRun
  flag of the request's configuration and in the DryRun field of the option bundle at
  every return of rcBisync, and in the configuration and the bundle that any run of
  Bisync receives; the same holds for whatever value the accessor GetBool reads from
  dryRun without error, so a value that is not a boolean but that the accessor reads
  as one (the string true) is treated as that boolean. When dryRun is absent, the
  configuration is the one the incoming context carried and the bundle's DryRun is
  still the zero value. A present value that the accessor does not read as a boolean
  makes rcBisync return nil with the conversion's error as an invalid-parameter error
  before anything else is done; more generally it returns so with whatever error the accessor
  reports for dryRun, unless that is the not-found error.
\<close>

theorem rcBisync_dryRun:
  fixes env :: "('fs, 'cs) Env"
  shows
  "(\<forall>b. ps ''dryRun'' = Some (VBool b) \<longrightarrow>
      ci_DryRun (ret_ci (rcBisync env ctx ps)) = b
      \<and> DryRun (ret_opt (rcBisync env ctx ps)) = b
      \<and> (\<forall>c f1 f2 sent. Bisync_call c f1 f2 sent \<in> set (ret_events (rcBisync env ctx ps))
            \<longrightarrow> ci_DryRun c = b \<and> DryRun sent = b))
   \<and> (\<forall>b. GetBool (Conv env) ps ''dryRun'' = (b, None) \<longrightarrow>
      ci_DryRun (ret_ci (rcBisync env ctx ps)) = b
      \<and> DryRun (ret_opt (rcBisync env ctx ps)) = b
      \<and> (\<forall>c f1 f2 sent. Bisync_call c f1 f2 sent \<in> set (ret_events (rcBisync env ctx ps))
            \<longrightarrow> ci_DryRun c = b \<and> DryRun sent = b))
   \<and> (ps ''dryRun'' = None \<longrightarrow>
      ret_ci (rcBisync env ctx ps) = ctx
      \<and> DryRun (ret_opt (rcBisync env ctx ps)) = DryRun (Options_zero env)
      \<and> DryRun (ret_opt (rcBisync env ctx ps)) = False
      \<and> (\<forall>c f1 f2 sent. Bisync_call c f1 f2 sent \<in> set (ret_events (rcBisync env ctx ps))
            \<longrightarrow> c = ctx \<and> DryRun sent = False))
   \<and> (\<forall>v e. ps ''dryRun'' = Some v \<longrightarrow> (\<forall>b. v \<noteq> VBool b) \<longrightarrow>
      ConvBool (Conv env) ''dryRun'' v = Inl e \<longrightarrow>
      rcBisync env ctx ps = Returned None (Some (ErrParamInvalid e)) ctx (Options_zero env) [])
   \<and> (NotErrParamNotFound (snd (GetBool (Conv env) ps ''dryRun'')) \<longrightarrow>
      rcBisync env ctx ps
        = Returned None (snd (GetBool (Conv env) ps ''dryRun'')) ctx (Options_zero env) [])"
proof (intro conjI allI impI)
  fix b
  assume p: "ps ''dryRun'' = Some (VBool b)"
  then have g: "GetBool (Conv env) ps ''dryRun'' = (b, None)" by (simp add: GetBool_def)
  show "ci_DryRun (ret_ci (rcBisync env ctx ps)) = b"
    "DryRun (ret_opt (rcBisync env ctx ps)) = b"
    by (rule rcBisync_dryRun_read [OF g])+
  fix c f1 f2 and sent :: "'cs bisync_Options"
  assume "Bisync_call c f1 f2 sent \<in> set (ret_events (rcBisync env ctx ps))"
  from rcBisync_dryRun_read(3) [OF g this]
  show "ci_DryRun c = b" "DryRun sent = b" by simp_all
next
  fix b
  assume g: "GetBool (Conv env) ps ''dryRun'' = (b, None)"
  show "ci_DryRun (ret_ci (rcBisync env ctx ps)) = b"
    "DryRun (ret_opt (rcBisync env ctx ps)) = b"
    by (rule rcBisync_dryRun_read [OF g])+
  fix c f1 f2 and sent :: "'cs bisync_Options"
  assume "Bisync_call c f1 f2 sent \<in> set (ret_events (rcBisync env ctx ps))"
  from rcBisync_dryRun_read(3) [OF g this]
  show "ci_DryRun c = b" "DryRun sent = b" by simp_all
next
  assume p: "ps ''dryRun'' = None"
  then have g: "GetBool (Conv env) ps ''dryRun'' = (False, Some (ErrParamNotFound ''dryRun''))"
    by (simp add: GetBool_def)
  show c: "ret_ci (rcBisync env ctx ps) = ctx"
    by (simp add: rcBisync_ret_ci dryRun_ci_def g)
  show d: "DryRun (ret_opt (rcBisync env ctx ps)) = False"
    by (simp add: rcBisync_ret_DryRun dryRun_opt_def g Options_zero_def)
  then show "DryRun (ret_opt (rcBisync env ctx ps)) = DryRun (Options_zero env)"
    by (simp add: Options_zero_def)
  fix c' f1 f2 and sent :: "'cs bisync_Options"
  assume "Bisync_call c' f1 f2 sent \<in> set (ret_events (rcBisync env ctx ps))"
  from rcBisync_Bisync_call [OF this]
  show "c' = ctx" "DryRun sent = False"
    by (simp_all add: c d)
next
  fix v e
  assume p: "ps ''dryRun'' = Some v" "\<forall>b. v \<noteq> VBool b"
    "ConvBool (Conv env) ''dryRun'' v = Inl e"
  then have g: "GetBool (Conv env) ps ''dryRun'' = (False, Some (ErrParamInvalid e))"
    by (cases v) (auto simp: GetBool_def)
  show "rcBisync env ctx ps
        = Returned None (Some (ErrParamInvalid e)) ctx (Options_zero env) []"
    unfolding rcBisync_stepwise leading_steps_eq
    by (simp add: g NotErrParamNotFound_simps)
next
  assume "NotErrParamNotFound (snd (GetBool (Conv env) ps ''dryRun''))"
  then show "rcBisync env ctx ps
        = Returned None (snd (GetBool (Conv env) ps ''dryRun'')) ctx (Options_zero env) []"
    unfolding rcBisync_stepwise leading_steps_eq by simp
qed

subsection \<open>maxDelete\<close>



subsection \<open>The return taken\<close>

lemma rcBisync_not_params_decode:
  fixes env :: "('fs, 'cs) Env"
  assumes "\<not> params_decode env ps"
  shows "ret_out (rcBisync env ctx ps) = None
         \<and> ret_err (rcBisync env ctx ps) \<noteq> None
         \<and> ret_events (rcBisync env ctx ps) = []"
proof (cases "options_decode env ps")
  case False
  from rcBisync_not_decoded [OF False, where ctx = ctx] show ?thesis
    by (auto dest: NotErrParamNotFound_Some)
next
  case True
  with assms have c: "\<not> checkSync_decodes env ps" by (simp add: params_decode_def)
  show ?thesis
  proof (cases "NotErrParamNotFound (snd (GetString ps ''checkSync''))")
    case n: True
    then have "snd (GetString ps ''checkSync'') \<noteq> None" by (rule NotErrParamNotFound_Some)
    with n show ?thesis
      unfolding rcBisync_decoded [OF True] closing_steps_eq by (simp add: Returned_def)
  next
    case False
    with c have "snd (CheckSync_Set env (CheckSync_zero env) (checkSync_arg ps)) \<noteq> None"
      by (simp add: checkSync_decodes_def)
    with False show ?thesis
      unfolding rcBisync_decoded [OF True] closing_steps_eq
      by (simp add: Returned_def decoded_opt_fields)
  qed
qed

lemma rcBisync_params_decode:
  fixes env :: "('fs, 'cs) Env"
  assumes "params_decode env ps"
  shows "rcBisync env ctx ps =
    (case GetFsNamed env (dryRun_ci env ctx ps) ps ''path1'' of
       Inl e \<Rightarrow>
         Returned None (Some e) (dryRun_ci env ctx ps)
           ((decoded_opt env ps)\<lparr>CheckSync :=
               fst (CheckSync_Set env (CheckSync_zero env) (checkSync_arg ps))\<rparr>)
           [GetFsNamed_call ''path1'']
     | Inr fs1 \<Rightarrow>
     case GetFsNamed env (dryRun_ci env ctx ps) ps ''path2'' of
       Inl e \<Rightarrow>
         Returned None (Some e) (dryRun_ci env ctx ps)
           ((decoded_opt env ps)\<lparr>CheckSync :=
               fst (CheckSync_Set env (CheckSync_zero env) (checkSync_arg ps))\<rparr>)
           [GetFsNamed_call ''path1'', GetFsNamed_call ''path2'']
     | Inr fs2 \<Rightarrow>
         Returned
           (Some [''output'' \<mapsto> VString (fst (Bisync env (dryRun_ci env ctx ps) fs1 fs2
              ((decoded_opt env ps)\<lparr>CheckSync :=
                  fst (CheckSync_Set env (CheckSync_zero env) (checkSync_arg ps))\<rparr>)))])
           (snd (Bisync env (dryRun_ci env ctx ps) fs1 fs2
              ((decoded_opt env ps)\<lparr>CheckSync :=
                  fst (CheckSync_Set env (CheckSync_zero env) (checkSync_arg ps))\<rparr>)))
           (dryRun_ci env ctx ps)
           ((decoded_opt env ps)\<lparr>CheckSync :=
               fst (CheckSync_Set env (CheckSync_zero env) (checkSync_arg ps))\<rparr>)
           [GetFsNamed_call ''path1'', GetFsNamed_call ''path2'',
            Bisync_call (dryRun_ci env ctx ps) fs1 fs2
              ((decoded_opt env ps)\<lparr>CheckSync :=
                  fst (CheckSync_Set env (CheckSync_zero env) (checkSync_arg ps))\<rparr>),
            Log_write (fst (Bisync env (dryRun_ci env ctx ps) fs1 fs2
              ((decoded_opt env ps)\<lparr>CheckSync :=
                  fst (CheckSync_Set env (CheckSync_zero env) (checkSync_arg ps))\<rparr>)))])"
proof -
  from assms have o: "options_decode env ps"
    and n: "\<not> NotErrParamNotFound (snd (GetString ps ''checkSync''))"
    and s: "snd (CheckSync_Set env (CheckSync_zero env) (checkSync_arg ps)) = None"
    by (simp_all add: params_decode_def checkSync_decodes_def)
  show ?thesis
    unfolding rcBisync_decoded [OF o] closing_steps_eq decoded_opt_fields
    using n s by (simp only: if_False not_not refl if_True simp_thms)
qed


subsection \<open>checkSync\<close>



subsection \<open>path1 and path2\<close>

text \<open>
  Claim C5. For every parameter map: if the resolution of path1 or of path2 fails (the
  location is missing or cannot be resolved, so that GetFsNamed returns an error for
  it), rcBisync returns nil with an error and Bisync is not run. The two resolutions
  come after the decoding of all parameters: when a parameter does not decode, no
  resolution is attempted; when all decode, path1 is resolved first, its error is
  returned without resolving path2, and an error of path2 is returned after path1
  resolved.
\<close>

theorem rcBisync_paths:
  fixes env :: "('fs, 'cs) Env"
  shows
  "((\<exists>e. GetFsNamed env (ret_ci (rcBisync env ctx ps)) ps ''path1'' = Inl e)
      \<or> (\<exists>e. GetFsNamed env (ret_ci (rcBisync env ctx ps)) ps ''path2'' = Inl e) \<longrightarrow>
      ret_out (rcBisync env ctx ps) = None
      \<and> ret_err (rcBisync env ctx ps) \<noteq> None
      \<and> (\<forall>c f1 f2 sent. Bisync_call c f1 f2 sent \<notin> set (ret_events (rcBisync env ctx ps))))
   \<and> (\<not> params_decode env ps \<longrightarrow> ret_events (rcBisync env ctx ps) = [])
   \<and> (params_decode env ps \<longrightarrow>
        (\<forall>e. GetFsNamed env (ret_ci (rcBisync env ctx ps)) ps ''path1'' = Inl e \<longrightarrow>
           ret_err (rcBisync env ctx ps) = Some e
           \<and> ret_events (rcBisync env ctx ps) = [GetFsNamed_call ''path1''])
        \<and> (\<forall>f1 e. GetFsNamed env (ret_ci (rcBisync env ctx ps)) ps ''path1'' = Inr f1 \<longrightarrow>
             GetFsNamed env (ret_ci (rcBisync env ctx ps)) ps ''path2'' = Inl e \<longrightarrow>
           ret_err (rcBisync env ctx ps) = Some e
           \<and> ret_events (rcBisync env ctx ps)
               = [GetFsNamed_call ''path1'', GetFsNamed_call ''path2'']))"
proof (cases "params_decode env ps")
  case False
  from rcBisync_not_params_decode [OF False, of ctx] False
  show ?thesis by simp
next
  case True
  note r = rcBisync_params_decode [OF True, of ctx]
  show ?thesis
    unfolding rcBisync_ret_ci
    by (cases "GetFsNamed env (dryRun_ci env ctx ps) ps ''path1''";
        cases "GetFsNamed env (dryRun_ci env ctx ps) ps ''path2''")
      (simp_all add: r True Returned_def)
qed

subsection \<open>The result of a run\<close>

text \<open>
  Claim C6. When all parameters decode and both locations resolve, rcBisync returns the
  result map that holds, under the key output and nowhere else, the text captured
  around the run of Bisync, together with the error of that run, whether or not the
  run failed. The run received the decoded configuration and bundle, and the captured
  text was written to the log.
\<close>

theorem rcBisync_output:
  fixes env :: "('fs, 'cs) Env"
  assumes "params_decode env ps"
    and "GetFsNamed env (ret_ci (rcBisync env ctx ps)) ps ''path1'' = Inr fs1"
    and "GetFsNamed env (ret_ci (rcBisync env ctx ps)) ps ''path2'' = Inr fs2"
  shows
  "ret_out (rcBisync env ctx ps)
      = Some [''output'' \<mapsto> VString (fst (Bisync env (ret_ci (rcBisync env ctx ps)) fs1 fs2
                (ret_opt (rcBisync env ctx ps))))]
   \<and> ret_err (rcBisync env ctx ps)
      = snd (Bisync env (ret_ci (rcBisync env ctx ps)) fs1 fs2 (ret_opt (rcBisync env ctx ps)))
   \<and> ret_events (rcBisync env ctx ps)
      = [GetFsNamed_call ''path1'', GetFsNamed_call ''path2'',
         Bisync_call (ret_ci (rcBisync env ctx ps)) fs1 fs2 (ret_opt (rcBisync env ctx ps)),
         Log_write (fst (Bisync env (ret_ci (rcBisync env ctx ps)) fs1 fs2
                (ret_opt (rcBisync env ctx ps))))]"
proof -
  from assms(2,3) have p: "GetFsNamed env (dryRun_ci env ctx ps) ps ''path1'' = Inr fs1"
    "GetFsNamed env (dryRun_ci env ctx ps) ps ''path2'' = Inr fs2"
    by (simp_all add: rcBisync_ret_ci)
  show ?thesis
    by (simp add: rcBisync_params_decode [OF assms(1)] p Returned_def)
qed

subsection \<open>The keys of the five string and policy options\<close>



lemma demo_params_decode:
  "options_decode demo_env demo_params"
  "params_decode demo_env demo_params"
  by (simp_all add: params_decode_def checkSync_decodes_def checkSync_arg_def options_decode_def
      GetBool_def GetInt64_def GetString_def GetPrefer_def NotErrParamNotFound_simps
      demo_params_def demo_env_def)






subsection \<open>The theorems at concrete parameter maps\<close>

text \<open>
  Claim C7 as stated fails in its last clause. In the map below dryRun is the string
  true, which is not a boolean; the conversion of the accessor reads it as one, as
  \<^verbatim>\<open>strconv.ParseBool\<close> does, and rcBisync does not return an error: DryRun is set in
  the configuration and in the bundle, both locations are resolved and Bisync runs.
\<close>

theorem rcBisync_dryRun_counterexample:
  "(demo_params(''dryRun'' \<mapsto> VString ''true'')) ''dryRun'' = Some (VString ''true'')
   \<and> (\<forall>b. VString ''true'' \<noteq> VBool b)
   \<and> ret_err (rcBisync demo_env demo_ctx (demo_params(''dryRun'' \<mapsto> VString ''true''))) = None
   \<and> ret_out (rcBisync demo_env demo_ctx (demo_params(''dryRun'' \<mapsto> VString ''true'')))
       = Some [''output'' \<mapsto> VString ''Bisync successful'']
   \<and> ci_DryRun (ret_ci (rcBisync demo_env demo_ctx (demo_params(''dryRun'' \<mapsto> VString ''true''))))
   \<and> DryRun (ret_opt (rcBisync demo_env demo_ctx (demo_params(''dryRun'' \<mapsto> VString ''true''))))
   \<and> Bisync_call (demo_ctx\<lparr>ci_DryRun := True\<rparr>) ''remote:a'' ''remote:b''
         (ret_opt (rcBisync demo_env demo_ctx (demo_params(''dryRun'' \<mapsto> VString ''true''))))
       \<in> set (ret_events (rcBisync demo_env demo_ctx
            (demo_params(''dryRun'' \<mapsto> VString ''true''))))"
proof -
  let ?ps = "demo_params(''dryRun'' \<mapsto> VString ''true'')"
  have g: "GetBool (Conv demo_env) ?ps ''dryRun'' = (True, None)"
    by (simp add: GetBool_def demo_env_def demo_conv_def ParseBool_def)
  have d: "params_decode demo_env ?ps"
    by (simp add: params_decode_def checkSync_decodes_def checkSync_arg_def options_decode_def
        GetBool_def GetInt64_def GetString_def GetPrefer_def NotErrParamNotFound_simps
        demo_params_def demo_env_def demo_conv_def ParseBool_def)
  have c: "dryRun_ci demo_env demo_ctx ?ps = demo_ctx\<lparr>ci_DryRun := True\<rparr>"
    by (simp add: dryRun_ci_def g)
  have p: "GetFsNamed demo_env x ?ps ''path1'' = Inr ''remote:a''"
    "GetFsNamed demo_env x ?ps ''path2'' = Inr ''remote:b''" for x
    by (simp_all add: demo_env_def GetString_def demo_params_def)
  have b: "Bisync demo_env x ''remote:a'' ''remote:b'' y = (''Bisync successful'', None)" for x y
    by (simp add: demo_env_def)
  have r: "ret_err (rcBisync demo_env demo_ctx ?ps) = None"
    "ret_out (rcBisync demo_env demo_ctx ?ps) = Some [''output'' \<mapsto> VString ''Bisync successful'']"
    "Bisync_call (demo_ctx\<lparr>ci_DryRun := True\<rparr>) ''remote:a'' ''remote:b''
         (ret_opt (rcBisync demo_env demo_ctx ?ps))
       \<in> set (ret_events (rcBisync demo_env demo_ctx ?ps))"
    unfolding rcBisync_params_decode [OF d, where ctx = demo_ctx]
    by (simp_all add: p b c Returned_def)
  have k: "?ps ''dryRun'' = Some (VString ''true'')" by simp
  from k r rcBisync_dryRun_read(1,2) [OF g, where ctx = demo_ctx]
  show ?thesis by simp
qed

text \<open>
  The amended C7 with dryRun true, with dryRun absent, with dryRun the string true,
  which the conversion reads as a boolean, and with dryRun the string yes, which it
  does not.
\<close>

theorem rcBisync_dryRun_witness:
  "ci_DryRun (ret_ci (rcBisync demo_env demo_ctx (demo_params(''dryRun'' \<mapsto> VBool True))))
   \<and> DryRun (ret_opt (rcBisync demo_env demo_ctx (demo_params(''dryRun'' \<mapsto> VBool True))))
   \<and> ret_ci (rcBisync demo_env demo_ctx demo_params) = demo_ctx
   \<and> DryRun (ret_opt (rcBisync demo_env demo_ctx demo_params)) = False
   \<and> DryRun (ret_opt (rcBisync demo_env demo_ctx (demo_params(''dryRun'' \<mapsto> VString ''true''))))
   \<and> rcBisync demo_env demo_ctx (demo_params(''dryRun'' \<mapsto> VString ''yes''))
       = Returned None
           (Some (ErrParamInvalid (Errorf ''expecting bool value for key %q'' [''dryRun''])))
           demo_ctx (Options_zero demo_env) []"
proof -
  have g: "GetBool (Conv demo_env) (demo_params(''dryRun'' \<mapsto> VString ''true'')) ''dryRun''
      = (True, None)"
    by (simp add: GetBool_def demo_env_def demo_conv_def ParseBool_def)
  from rcBisync_dryRun
    [where ps = "demo_params(''dryRun'' \<mapsto> VString ''true'')" and env = demo_env
      and ctx = demo_ctx] g
  have 4: "DryRun (ret_opt (rcBisync demo_env demo_ctx (demo_params(''dryRun'' \<mapsto> VString ''true''))))"
    by blast
  have a: "(demo_params(''dryRun'' \<mapsto> VBool True)) ''dryRun'' = Some (VBool True)"
    and b: "demo_params ''dryRun'' = None"
    and c: "(demo_params(''dryRun'' \<mapsto> VString ''yes'')) ''dryRun'' = Some (VString ''yes'')"
    and d: "\<forall>b. VString ''yes'' \<noteq> VBool b"
    and e: "ConvBool (Conv demo_env) ''dryRun'' (VString ''yes'')
        = Inl (Errorf ''expecting bool value for key %q'' [''dryRun''])"
    by (simp_all add: demo_params_def demo_env_def demo_conv_def ParseBool_def)
  from rcBisync_dryRun
    [where ps = "demo_params(''dryRun'' \<mapsto> VBool True)" and env = demo_env and ctx = demo_ctx] a
  have 1: "ci_DryRun (ret_ci (rcBisync demo_env demo_ctx (demo_params(''dryRun'' \<mapsto> VBool True))))"
    "DryRun (ret_opt (rcBisync demo_env demo_ctx (demo_params(''dryRun'' \<mapsto> VBool True))))"
    by blast+
  from rcBisync_dryRun [where ps = demo_params and env = demo_env and ctx = demo_ctx] b
  have 2: "ret_ci (rcBisync demo_env demo_ctx demo_params) = demo_ctx"
    "DryRun (ret_opt (rcBisync demo_env demo_ctx demo_params)) = False"
    by blast+
  from rcBisync_dryRun
    [where ps = "demo_params(''dryRun'' \<mapsto> VString ''yes'')" and env = demo_env
      and ctx = demo_ctx] c d e
  have 3: "rcBisync demo_env demo_ctx (demo_params(''dryRun'' \<mapsto> VString ''yes''))
       = Returned None
           (Some (ErrParamInvalid (Errorf ''expecting bool value for key %q'' [''dryRun''])))
           demo_ctx (Options_zero demo_env) []"
    by blast
  from 1 2 3 4 show ?thesis by (simp only: simp_thms)
qed



text \<open>The theorem of C5 on a map without path2, and on a map with a maxDelete of 150.\<close>

theorem rcBisync_paths_witness:
  "ret_out (rcBisync demo_env demo_ctx [''path1'' \<mapsto> VString ''remote:a'']) = None
   \<and> ret_err (rcBisync demo_env demo_ctx [''path1'' \<mapsto> VString ''remote:a''])
       = Some (ErrParamNotFound ''path2'')
   \<and> ret_events (rcBisync demo_env demo_ctx [''path1'' \<mapsto> VString ''remote:a''])
       = [GetFsNamed_call ''path1'', GetFsNamed_call ''path2'']
   \<and> ret_events (rcBisync demo_env demo_ctx (demo_params(''maxDelete'' \<mapsto> VInt 150))) = []"
proof -
  let ?ps = "[''path1'' \<mapsto> VString ''remote:a'']"
  have d: "params_decode demo_env ?ps"
    by (simp add: params_decode_def checkSync_decodes_def checkSync_arg_def options_decode_def
        GetBool_def GetInt64_def GetString_def GetPrefer_def NotErrParamNotFound_simps demo_env_def)
  have p: "GetFsNamed demo_env c ?ps ''path1'' = Inr ''remote:a''"
    "GetFsNamed demo_env c ?ps ''path2'' = Inl (ErrParamNotFound ''path2'')" for c
    by (simp_all add: demo_env_def GetString_def)
  have n: "\<not> params_decode demo_env (demo_params(''maxDelete'' \<mapsto> VInt 150))"
    by (simp add: params_decode_def options_decode_def GetInt64_def word_sless_alt)
  from rcBisync_paths [where env = demo_env and ctx = demo_ctx and ps = ?ps] d p
  have 1: "ret_out (rcBisync demo_env demo_ctx ?ps) = None"
    "ret_err (rcBisync demo_env demo_ctx ?ps) = Some (ErrParamNotFound ''path2'')"
    "ret_events (rcBisync demo_env demo_ctx ?ps)
       = [GetFsNamed_call ''path1'', GetFsNamed_call ''path2'']"
    by simp_all
  from rcBisync_paths
    [where env = demo_env and ctx = demo_ctx and ps = "demo_params(''maxDelete'' \<mapsto> VInt 150)"] n
  have 2: "ret_events (rcBisync demo_env demo_ctx (demo_params(''maxDelete'' \<mapsto> VInt 150))) = []"
    by simp
  from 1 2 show ?thesis by (simp only: simp_thms)
qed

text \<open>
  The theorem of C6 on two different locations, where the run succeeds, and on twice
  the same location, where the run fails and its text is returned with its error.
\<close>

theorem rcBisync_output_witness:
  "ret_out (rcBisync demo_env demo_ctx demo_params)
      = Some [''output'' \<mapsto> VString ''Bisync successful'']
   \<and> ret_err (rcBisync demo_env demo_ctx demo_params) = None
   \<and> ret_out (rcBisync demo_env demo_ctx
        [''path1'' \<mapsto> VString ''remote:a'', ''path2'' \<mapsto> VString ''remote:a''])
      = Some [''output'' \<mapsto> VString ''ERROR: paths overlap'']
   \<and> ret_err (rcBisync demo_env demo_ctx
        [''path1'' \<mapsto> VString ''remote:a'', ''path2'' \<mapsto> VString ''remote:a''])
      = Some (ErrExternal ''paths overlap'')"
proof -
  let ?same = "[''path1'' \<mapsto> VString ''remote:a'', ''path2'' \<mapsto> VString ''remote:a'']"
  have d: "params_decode demo_env ?same"
    by (simp add: params_decode_def checkSync_decodes_def checkSync_arg_def options_decode_def
        GetBool_def GetInt64_def GetString_def GetPrefer_def NotErrParamNotFound_simps demo_env_def)
  have p: "GetFsNamed demo_env c demo_params ''path1'' = Inr ''remote:a''"
    "GetFsNamed demo_env c demo_params ''path2'' = Inr ''remote:b''"
    "GetFsNamed demo_env c ?same ''path1'' = Inr ''remote:a''"
    "GetFsNamed demo_env c ?same ''path2'' = Inr ''remote:a''" for c
    by (simp_all add: demo_env_def GetString_def demo_params_def)
  have b: "Bisync demo_env c ''remote:a'' ''remote:b'' x = (''Bisync successful'', None)"
    "Bisync demo_env c ''remote:a'' ''remote:a'' x
      = (''ERROR: paths overlap'', Some (ErrExternal ''paths overlap''))" for c x
    by (simp_all add: demo_env_def)
  from rcBisync_output [OF demo_params_decode(2) p(1) p(2), where ctx = demo_ctx]
  have 1: "ret_out (rcBisync demo_env demo_ctx demo_params)
      = Some [''output'' \<mapsto> VString ''Bisync successful'']"
    "ret_err (rcBisync demo_env demo_ctx demo_params) = None"
    by (simp_all add: b)
  from rcBisync_output [OF d p(3) p(4), where ctx = demo_ctx]
  have 2: "ret_out (rcBisync demo_env demo_ctx ?same)
      = Some [''output'' \<mapsto> VString ''ERROR: paths overlap'']"
    "ret_err (rcBisync demo_env demo_ctx ?same) = Some (ErrExternal ''paths overlap'')"
    by (simp_all add: b)
  from 1 2 show ?thesis by (simp only: simp_thms)
qed

end
